theory Spec2Isabelle
  imports Main "HOL-Library.Char_ord" "HOL-Library.List_Lexorder"
begin

section \<open>The todo store of todolist_server.py\<close>

text \<open>
  A shallow embedding of the class \<open>TodoManager\<close> of \<open>todolist_server.py\<close>.
  The methods \<open>_load_todos\<close>, \<open>_save_todos\<close>, \<open>_create_backup\<close>, \<open>_validate_date\<close>,
  \<open>_validate_todo\<close> and \<open>_serialize_todo\<close> keep their names with the leading
  underscore written \<open>u_\<close>.

  Conventions of the model:
  \<^item> A JSON value is null, an integer, a string or a list of strings: exactly the values the
    manager itself writes into a record. Booleans, fractions, nested lists and nested
    objects are left out.
  \<^item> A record is a Python dict, here a map from key to value. A key can be absent, or
    present with the value null; \<open>dict[k]\<close> raises \<open>KeyError\<close> on an absent key and
    \<open>dict.get\<close> does not.
  \<^item> One element of a \<open>string\<close> stands for one code point of a Python \<open>str\<close>.
  \<^item> The backing file holds either a JSON array of records or text that \<open>json.loads\<close>
    rejects; the serialised bytes are not modelled.
  \<^item> Whatever the program reads from its environment during one operation (clock readings,
    formatted timestamps, the outcome of each file system call) is an argument of type
    \<open>env\<close>.
  \<^item> A Python exception that leaves a method is the \<open>Inl\<close> side of its result.
\<close>

subsection \<open>Values and errors\<close>

datatype jval = JNull | JInt int | JStr string | JList "string list"

type_synonym todo = "string \<rightharpoonup> jval"

datatype py_error = KeyError | TypeError | AttributeError

text \<open>The dict every operation returns: \<open>{"success": True, ...}\<close> with its payload, or
  \<open>{"success": False, "errors": [...]}\<close>.\<close>

datatype result =
    Todo_result todo
  | Message string
  | Listing "todo list" int int int
  | Backup_created string
  | Failure "string list"

subsection \<open>The manager's state and its environment\<close>

datatype fcontent = Json "todo list" | Garbage string

text \<open>A clock reading, in microseconds (the resolution of \<open>datetime\<close>).\<close>

type_synonym time = int

record manager =
  backing_file :: "fcontent option"
  backup_dir :: string
  backups :: "string \<rightharpoonup> fcontent"
  todos_cache :: "todo list option"
  last_load_time :: "time option"

text \<open>
  How \<open>open(file_path, "w")\<close> followed by \<open>write\<close> ends: both succeed; the open raises and
  the file is as before; or the open has truncated the file and the write raises, which
  leaves a strict prefix of a JSON array in the file, never a parseable document.
\<close>

datatype write_outcome = Written | Open_fails | Write_fails string

record env =
  iso_created :: string
  iso_updated :: string
  today :: string
  load_now :: time
  read_ok :: bool
  corrupt_stamp :: string
  corrupt_copy_ok :: bool
  backup_stamp :: string
  backup_copy_ok :: bool
  write_res :: write_outcome
  save_now :: time

text \<open>
  \<open>iso_created\<close>, \<open>iso_updated\<close>: the two values of \<open>datetime.now().isoformat()\<close> of
  \<open>add_todo\<close> (\<open>update_todo\<close> reads only the second); \<open>today\<close>:
  \<open>date.today().isoformat()\<close>; \<open>load_now\<close>, \<open>save_now\<close>: \<open>datetime.now()\<close> in
  \<open>_load_todos\<close> and \<open>_save_todos\<close>; \<open>read_ok\<close>: opening and reading the existing file
  raises nothing; \<open>corrupt_stamp\<close>, \<open>backup_stamp\<close>: the \<open>strftime\<close> timestamp of the backup
  taken on a corrupted load and of the backup taken before a save or on demand;
  \<open>corrupt_copy_ok\<close>, \<open>backup_copy_ok\<close>: \<open>os.makedirs\<close> and \<open>shutil.copy2\<close> raise nothing
  there.
\<close>

subsection \<open>Backup, load and save\<close>

text \<open>\<open>os.path.join\<close> of a directory and a relative file name.\<close>

definition path_join :: "string \<Rightarrow> string \<Rightarrow> string" where
  "path_join a b = (if a = [] \<or> last a = CHR ''/'' then a @ b else a @ ''/'' @ b)"

definition u_create_backup ::
  "string option \<Rightarrow> string \<Rightarrow> bool \<Rightarrow> manager \<Rightarrow> string option \<times> manager" where
  "u_create_backup suffix timestamp copy_ok s =
     (case backing_file s of
        None \<Rightarrow> (None, s)
      | Some content \<Rightarrow>
          (let suffix_str = (case suffix of
                               None \<Rightarrow> []
                             | Some x \<Rightarrow> if x = [] then [] else ''_'' @ x);
               backup_filename = ''todos_backup_'' @ timestamp @ suffix_str @ ''.json'';
               backup_path = path_join (backup_dir s) backup_filename
           in if copy_ok
              then (Some backup_path, s\<lparr>backups := (backups s)(backup_path \<mapsto> content)\<rparr>)
              else (None, s)))"

text \<open>The test of \<open>_load_todos\<close> that lets it answer from the cache.\<close>

definition cache_hit :: "bool \<Rightarrow> time \<Rightarrow> manager \<Rightarrow> bool" where
  "cache_hit force_reload current_time s =
     (\<not> force_reload \<and>
      (case todos_cache s of
         None \<Rightarrow> False
       | Some c \<Rightarrow>
           (case last_load_time s of
              None \<Rightarrow> False
            | Some t \<Rightarrow> current_time - t < 5000000)))"

definition u_load_todos :: "bool \<Rightarrow> env \<Rightarrow> manager \<Rightarrow> todo list \<times> manager" where
  "u_load_todos force_reload e s =
     (let current_time = load_now e in
      if cache_hit force_reload current_time s
      then (case todos_cache s of Some c \<Rightarrow> (c, s) | None \<Rightarrow> ([], s))
      else
        (case backing_file s of
           None \<Rightarrow> ([], s\<lparr>todos_cache := Some [], last_load_time := Some current_time\<rparr>)
         | Some content \<Rightarrow>
             if \<not> read_ok e
             then ([], s\<lparr>todos_cache := Some [], last_load_time := Some current_time\<rparr>)
             else
               (case content of
                  Json todos \<Rightarrow>
                    (todos, s\<lparr>todos_cache := Some todos, last_load_time := Some current_time\<rparr>)
                | Garbage g \<Rightarrow>
                    (let s1 = snd (u_create_backup (Some ''corrupted'') (corrupt_stamp e)
                                     (corrupt_copy_ok e) s)
                     in ([], s1\<lparr>todos_cache := Some [],
                                last_load_time := Some current_time\<rparr>)))))"

definition u_save_todos :: "todo list \<Rightarrow> env \<Rightarrow> manager \<Rightarrow> bool \<times> manager" where
  "u_save_todos todos e s =
     (let s1 = snd (u_create_backup None (backup_stamp e) (backup_copy_ok e) s) in
      case write_res e of
        Written \<Rightarrow>
          (True, s1\<lparr>backing_file := Some (Json todos), todos_cache := Some todos,
                    last_load_time := Some (save_now e)\<rparr>)
      | Open_fails \<Rightarrow> (False, s1)
      | Write_fails g \<Rightarrow> (False, s1\<lparr>backing_file := Some (Garbage g)\<rparr>))"

definition create_backup :: "env \<Rightarrow> manager \<Rightarrow> (py_error + result) \<times> manager" where
  "create_backup e s =
     (case u_create_backup (Some ''manual'') (backup_stamp e) (backup_copy_ok e) s of
        (backup_path, s') \<Rightarrow>
          (case backup_path of
             None \<Rightarrow> (Inr (Failure [''Failed to create backup'']), s')
           | Some p \<Rightarrow>
               if p \<noteq> [] then (Inr (Backup_created p), s')
               else (Inr (Failure [''Failed to create backup'']), s')))"

subsection \<open>Python's operations on values\<close>

text \<open>Truth value, \<open>len\<close>, \<open>dict.get(k)\<close>, \<open>dict.get(k, d)\<close> and \<open>dict[k]\<close>.\<close>

fun truthy :: "jval \<Rightarrow> bool" where
  "truthy JNull = False"
| "truthy (JInt n) = (n \<noteq> 0)"
| "truthy (JStr x) = (x \<noteq> [])"
| "truthy (JList l) = (l \<noteq> [])"

fun py_len :: "jval \<Rightarrow> py_error + nat" where
  "py_len (JStr x) = Inr (length x)"
| "py_len (JList l) = Inr (length l)"
| "py_len JNull = Inl TypeError"
| "py_len (JInt n) = Inl TypeError"

definition dget :: "todo \<Rightarrow> string \<Rightarrow> jval" where
  "dget t k = (case t k of None \<Rightarrow> JNull | Some v \<Rightarrow> v)"

definition dget_default :: "todo \<Rightarrow> string \<Rightarrow> jval \<Rightarrow> jval" where
  "dget_default t k d = (case t k of None \<Rightarrow> d | Some v \<Rightarrow> v)"

definition ditem :: "todo \<Rightarrow> string \<Rightarrow> py_error + jval" where
  "ditem t k = (case t k of None \<Rightarrow> Inl KeyError | Some v \<Rightarrow> Inr v)"

text \<open>Sequencing of computations that may raise, and the list comprehensions
  \<open>[f(t) for t in xs]\<close> and \<open>[t for t in xs if p(t)]\<close> whose body may raise: the first
  element that raises ends the comprehension.\<close>

definition bindE :: "'e + 'a \<Rightarrow> ('a \<Rightarrow> 'e + 'b) \<Rightarrow> 'e + 'b" where
  "bindE m f = (case m of Inl e \<Rightarrow> Inl e | Inr x \<Rightarrow> f x)"

fun mapE :: "('a \<Rightarrow> 'e + 'b) \<Rightarrow> 'a list \<Rightarrow> 'e + 'b list" where
  "mapE f [] = Inr []"
| "mapE f (x # xs) =
     (case f x of
        Inl e \<Rightarrow> Inl e
      | Inr y \<Rightarrow> (case mapE f xs of Inl e \<Rightarrow> Inl e | Inr ys \<Rightarrow> Inr (y # ys)))"

fun filterE :: "('a \<Rightarrow> 'e + bool) \<Rightarrow> 'a list \<Rightarrow> 'e + 'a list" where
  "filterE p [] = Inr []"
| "filterE p (x # xs) =
     (case p x of
        Inl e \<Rightarrow> Inl e
      | Inr b \<Rightarrow>
          (case filterE p xs of
             Inl e \<Rightarrow> Inl e
           | Inr ys \<Rightarrow> Inr (if b then x # ys else ys)))"

text \<open>\<open>a < b\<close> and \<open>a > b\<close>: integers by value, strings and lists of strings
  lexicographically, anything else raises \<open>TypeError\<close> (null against null too).\<close>

fun py_lt :: "jval \<Rightarrow> jval \<Rightarrow> py_error + bool" where
  "py_lt (JInt a) (JInt b) = Inr (a < b)"
| "py_lt (JStr a) (JStr b) = Inr (a < b)"
| "py_lt (JList a) (JList b) = Inr (a < b)"
| "py_lt _ _ = Inl TypeError"

definition py_gt :: "jval \<Rightarrow> jval \<Rightarrow> py_error + bool" where
  "py_gt a b = py_lt b a"

text \<open>\<open>max(xs, default=d)\<close>: the running maximum is replaced by an item that is greater.\<close>

fun max_loop :: "jval \<Rightarrow> jval list \<Rightarrow> py_error + jval" where
  "max_loop m [] = Inr m"
| "max_loop m (x # xs) =
     (case py_gt x m of
        Inl e \<Rightarrow> Inl e
      | Inr b \<Rightarrow> max_loop (if b then x else m) xs)"

definition py_max_default :: "jval list \<Rightarrow> jval \<Rightarrow> py_error + jval" where
  "py_max_default xs d = (case xs of [] \<Rightarrow> Inr d | x # rest \<Rightarrow> max_loop x rest)"

text \<open>\<open>v + 1\<close>.\<close>

fun py_add1 :: "jval \<Rightarrow> py_error + jval" where
  "py_add1 (JInt n) = Inr (JInt (n + 1))"
| "py_add1 JNull = Inl TypeError"
| "py_add1 (JStr x) = Inl TypeError"
| "py_add1 (JList l) = Inl TypeError"

text \<open>\<open>str(n)\<close> of an integer, as an f-string formats it.\<close>

function str_nat :: "nat \<Rightarrow> string" where
  "str_nat n =
     (if n < 10 then [char_of (48 + n)]
      else str_nat (n div 10) @ [char_of (48 + n mod 10)])"
  by pat_completeness auto
termination
  by (relation "measure (\<lambda>n. n)") auto

definition str_int :: "int \<Rightarrow> string" where
  "str_int i = (if i < 0 then ''-'' @ str_nat (nat (- i)) else str_nat (nat i))"

text \<open>\<open>sep.join(xs)\<close>.\<close>

fun join :: "string \<Rightarrow> string list \<Rightarrow> string" where
  "join sep [] = []"
| "join sep [x] = x"
| "join sep (x # y # ys) = x @ sep @ join sep (y # ys)"

subsection \<open>Validation\<close>

definition VALID_STATUSES :: "string list" where
  "VALID_STATUSES = [''pending'', ''in_progress'', ''done'', ''cancelled'']"

definition VALID_PRIORITIES :: "string list" where
  "VALID_PRIORITIES = [''low'', ''medium'', ''high'', ''critical'']"

text \<open>
  \<open>datetime.strptime(x, "%Y-%m-%d")\<close> raises nothing exactly when \<open>x\<close> has four digits, a
  hyphen, a month matching \<open>1[0-2]|0[1-9]|[1-9]\<close>, a hyphen and a day matching
  \<open>3[0-1]|[1-2]\d|0[1-9]|[1-9]| [1-9]\<close>, with nothing left over, and the three numbers are
  a date of the calendar from year 1 on. Only the ASCII digits count as digits here.
\<close>

definition is_digit :: "char \<Rightarrow> bool" where
  "is_digit c = (CHR ''0'' \<le> c \<and> c \<le> CHR ''9'')"

definition is_digit19 :: "char \<Rightarrow> bool" where
  "is_digit19 c = (CHR ''1'' \<le> c \<and> c \<le> CHR ''9'')"

definition digit_val :: "char \<Rightarrow> nat" where
  "digit_val c = of_char c - 48"

fun parse_month :: "string \<Rightarrow> nat option" where
  "parse_month [a] = (if is_digit19 a then Some (digit_val a) else None)"
| "parse_month [a, b] =
     (if a = CHR ''1'' \<and> CHR ''0'' \<le> b \<and> b \<le> CHR ''2'' then Some (10 + digit_val b)
      else if a = CHR ''0'' \<and> is_digit19 b then Some (digit_val b)
      else None)"
| "parse_month _ = None"

fun parse_day :: "string \<Rightarrow> nat option" where
  "parse_day [a] = (if is_digit19 a then Some (digit_val a) else None)"
| "parse_day [a, b] =
     (if a = CHR ''3'' \<and> CHR ''0'' \<le> b \<and> b \<le> CHR ''1'' then Some (30 + digit_val b)
      else if CHR ''1'' \<le> a \<and> a \<le> CHR ''2'' \<and> is_digit b
        then Some (10 * digit_val a + digit_val b)
      else if a = CHR ''0'' \<and> is_digit19 b then Some (digit_val b)
      else if a = CHR '' '' \<and> is_digit19 b then Some (digit_val b)
      else None)"
| "parse_day _ = None"

definition is_leap :: "nat \<Rightarrow> bool" where
  "is_leap y = (if y mod 4 \<noteq> 0 then False else if y mod 100 \<noteq> 0 then True else y mod 400 = 0)"

definition days_in_month :: "nat \<Rightarrow> nat \<Rightarrow> nat" where
  "days_in_month y m =
     (if m = 2 then (if is_leap y then 29 else 28)
      else if m = 4 then 30 else if m = 6 then 30 else if m = 9 then 30
      else if m = 11 then 30 else 31)"

definition strptime_ymd :: "string \<Rightarrow> bool" where
  "strptime_ymd x =
     (case x of
        y1 # y2 # y3 # y4 # h # rest \<Rightarrow>
          if is_digit y1 \<and> is_digit y2 \<and> is_digit y3 \<and> is_digit y4 \<and> h = CHR ''-''
          then
            (case dropWhile (\<lambda>c. c \<noteq> CHR ''-'') rest of
               [] \<Rightarrow> False
             | h2 # ds \<Rightarrow>
                 (case parse_month (takeWhile (\<lambda>c. c \<noteq> CHR ''-'') rest) of
                    None \<Rightarrow> False
                  | Some m \<Rightarrow>
                      (case parse_day ds of
                         None \<Rightarrow> False
                       | Some d \<Rightarrow>
                           (let y = 1000 * digit_val y1 + 100 * digit_val y2
                                    + 10 * digit_val y3 + digit_val y4
                            in 1 \<le> y \<and> d \<le> days_in_month y m))))
          else False
      | _ \<Rightarrow> False)"

definition u_validate_date :: "jval \<Rightarrow> py_error + bool" where
  "u_validate_date date_str =
     (if \<not> truthy date_str then Inr True
      else (case date_str of JStr x \<Rightarrow> Inr (strptime_ymd x) | _ \<Rightarrow> Inl TypeError))"

text \<open>\<open>v in xs\<close> and \<open>isinstance(v, list)\<close> for a list \<open>xs\<close> of strings.\<close>

definition in_strings :: "jval \<Rightarrow> string list \<Rightarrow> bool" where
  "in_strings v xs = (case v of JStr x \<Rightarrow> x \<in> set xs | _ \<Rightarrow> False)"

definition is_list :: "jval \<Rightarrow> bool" where
  "is_list v = (case v of JList l \<Rightarrow> True | _ \<Rightarrow> False)"

text \<open>The six checks of \<open>_validate_todo\<close>, each giving the messages it appends.\<close>

definition check_title :: "todo \<Rightarrow> py_error + string list" where
  "check_title t =
     (if \<not> truthy (dget t ''title'') then Inr [''Title is required'']
      else bindE (py_len (dget_default t ''title'' (JStr [])))
             (\<lambda>n. Inr (if n > 100 then [''Title must be less than 100 characters''] else [])))"

definition check_description :: "todo \<Rightarrow> py_error + string list" where
  "check_description t =
     bindE (py_len (dget_default t ''description'' (JStr [])))
       (\<lambda>n. Inr (if n > 1000 then [''Description must be less than 1000 characters'']
                 else []))"

definition check_due_date :: "todo \<Rightarrow> py_error + string list" where
  "check_due_date t =
     (if truthy (dget t ''due_date'')
      then bindE (u_validate_date (dget t ''due_date''))
             (\<lambda>ok. Inr (if \<not> ok then [''Due date must be in YYYY-MM-DD format''] else []))
      else Inr [])"

definition check_status :: "todo \<Rightarrow> string list" where
  "check_status t =
     (if truthy (dget t ''status'') \<and> \<not> in_strings (dget t ''status'') VALID_STATUSES
      then [''Status must be one of: '' @ join '', '' VALID_STATUSES] else [])"

definition check_priority :: "todo \<Rightarrow> string list" where
  "check_priority t =
     (if truthy (dget t ''priority'') \<and> \<not> in_strings (dget t ''priority'') VALID_PRIORITIES
      then [''Priority must be one of: '' @ join '', '' VALID_PRIORITIES] else [])"

definition check_tags :: "todo \<Rightarrow> string list" where
  "check_tags t =
     (if truthy (dget t ''tags'') \<and> \<not> is_list (dget t ''tags'')
      then [''Tags must be a list''] else [])"

definition u_validate_todo :: "todo \<Rightarrow> py_error + string list" where
  "u_validate_todo t =
     bindE (check_title t) (\<lambda>e1.
     bindE (check_description t) (\<lambda>e2.
     bindE (check_due_date t) (\<lambda>e3.
       Inr (e1 @ e2 @ e3 @ check_status t @ check_priority t @ check_tags t))))"

definition u_serialize_todo :: "todo \<Rightarrow> py_error + todo" where
  "u_serialize_todo t =
     bindE (ditem t ''id'') (\<lambda>i.
     bindE (ditem t ''title'') (\<lambda>ti.
       Inr [''id'' \<mapsto> i,
            ''title'' \<mapsto> ti,
            ''description'' \<mapsto> dget_default t ''description'' (JStr []),
            ''due_date'' \<mapsto> dget t ''due_date'',
            ''status'' \<mapsto> dget_default t ''status'' (JStr ''pending''),
            ''priority'' \<mapsto> dget_default t ''priority'' (JStr ''medium''),
            ''tags'' \<mapsto> dget_default t ''tags'' (JList []),
            ''created_at'' \<mapsto> dget t ''created_at'',
            ''updated_at'' \<mapsto> dget t ''updated_at'']))"

subsection \<open>The mutating operations\<close>

text \<open>The dict \<open>add_todo\<close> builds from its arguments; \<open>tags or []\<close> is the empty list
  for \<open>None\<close>.\<close>

definition new_todo ::
  "string \<Rightarrow> string \<Rightarrow> string option \<Rightarrow> string \<Rightarrow> string \<Rightarrow> string list option \<Rightarrow> env \<Rightarrow> todo"
  where
  "new_todo title description due_date status priority tags e =
     [''title'' \<mapsto> JStr title,
      ''description'' \<mapsto> JStr description,
      ''due_date'' \<mapsto> (case due_date of None \<Rightarrow> JNull | Some d \<Rightarrow> JStr d),
      ''status'' \<mapsto> JStr status,
      ''priority'' \<mapsto> JStr priority,
      ''tags'' \<mapsto> JList (case tags of None \<Rightarrow> [] | Some l \<Rightarrow> l),
      ''created_at'' \<mapsto> JStr (iso_created e),
      ''updated_at'' \<mapsto> JStr (iso_updated e)]"

text \<open>\<open>max([t["id"] for t in todos], default=0) + 1\<close>.\<close>

definition next_id :: "todo list \<Rightarrow> py_error + jval" where
  "next_id todos =
     bindE (mapE (\<lambda>t. ditem t ''id'') todos) (\<lambda>ids.
     bindE (py_max_default ids (JInt 0)) py_add1)"

definition add_todo ::
  "string \<Rightarrow> string \<Rightarrow> string option \<Rightarrow> string \<Rightarrow> string \<Rightarrow> string list option \<Rightarrow> env \<Rightarrow>
   manager \<Rightarrow> (py_error + result) \<times> manager" where
  "add_todo title description due_date status priority tags e s =
     (let todo = new_todo title description due_date status priority tags e in
      case u_validate_todo todo of
        Inl err \<Rightarrow> (Inl err, s)
      | Inr validation_errors \<Rightarrow>
          if validation_errors \<noteq> [] then (Inr (Failure validation_errors), s)
          else
            (case u_load_todos True e s of
               (todos, s1) \<Rightarrow>
                 (case next_id todos of
                    Inl err \<Rightarrow> (Inl err, s1)
                  | Inr todo_id \<Rightarrow>
                      (let todo' = todo(''id'' \<mapsto> todo_id) in
                       case u_save_todos (todos @ [todo']) e s1 of
                         (saved, s2) \<Rightarrow>
                           if saved
                           then (case u_serialize_todo todo' of
                                   Inl err \<Rightarrow> (Inl err, s2)
                                 | Inr r \<Rightarrow> (Inr (Todo_result r), s2))
                           else (Inr (Failure [''Failed to save todo'']), s2)))))"

text \<open>The loop of \<open>update_todo\<close> that looks for the first record whose id equals
  \<open>todo_id\<close>; a record without the key \<open>id\<close> met on the way raises \<open>KeyError\<close>.\<close>

fun find_index :: "int \<Rightarrow> todo list \<Rightarrow> py_error + nat option" where
  "find_index todo_id [] = Inr None"
| "find_index todo_id (t # ts) =
     (case t ''id'' of
        None \<Rightarrow> Inl KeyError
      | Some v \<Rightarrow>
          if v = JInt todo_id then Inr (Some 0)
          else (case find_index todo_id ts of
                  Inl e \<Rightarrow> Inl e
                | Inr None \<Rightarrow> Inr None
                | Inr (Some i) \<Rightarrow> Inr (Some (Suc i))))"

text \<open>\<open>if v is not None: d[k] = v\<close>.\<close>

definition set_if :: "string \<Rightarrow> jval option \<Rightarrow> todo \<Rightarrow> todo" where
  "set_if k v t = (case v of None \<Rightarrow> t | Some x \<Rightarrow> t(k \<mapsto> x))"

definition merge_todo ::
  "todo \<Rightarrow> string option \<Rightarrow> string option \<Rightarrow> string option \<Rightarrow> string option \<Rightarrow> string option \<Rightarrow>
   string list option \<Rightarrow> env \<Rightarrow> todo" where
  "merge_todo old title description due_date status priority tags e =
     (set_if ''tags'' (map_option JList tags)
       (set_if ''priority'' (map_option JStr priority)
         (set_if ''status'' (map_option JStr status)
           (set_if ''due_date'' (map_option JStr due_date)
             (set_if ''description'' (map_option JStr description)
               (set_if ''title'' (map_option JStr title) old))))))
       (''updated_at'' \<mapsto> JStr (iso_updated e))"

definition update_todo ::
  "int \<Rightarrow> string option \<Rightarrow> string option \<Rightarrow> string option \<Rightarrow> string option \<Rightarrow> string option \<Rightarrow>
   string list option \<Rightarrow> env \<Rightarrow> manager \<Rightarrow> (py_error + result) \<times> manager" where
  "update_todo todo_id title description due_date status priority tags e s =
     (case u_load_todos True e s of
        (todos, s1) \<Rightarrow>
          (case find_index todo_id todos of
             Inl err \<Rightarrow> (Inl err, s1)
           | Inr None \<Rightarrow> (Inr (Failure [''Todo '' @ str_int todo_id @ '' not found'']), s1)
           | Inr (Some todo_index) \<Rightarrow>
               (let updated_todo = merge_todo (todos ! todo_index) title description due_date
                                     status priority tags e
                in case u_validate_todo updated_todo of
                     Inl err \<Rightarrow> (Inl err, s1)
                   | Inr validation_errors \<Rightarrow>
                       if validation_errors \<noteq> [] then (Inr (Failure validation_errors), s1)
                       else
                         (case u_save_todos (todos[todo_index := updated_todo]) e s1 of
                            (saved, s2) \<Rightarrow>
                              if saved
                              then (case u_serialize_todo updated_todo of
                                      Inl err \<Rightarrow> (Inl err, s2)
                                    | Inr r \<Rightarrow> (Inr (Todo_result r), s2))
                              else (Inr (Failure [''Failed to save todo'']), s2)))))"

definition complete_todo :: "int \<Rightarrow> env \<Rightarrow> manager \<Rightarrow> (py_error + result) \<times> manager" where
  "complete_todo todo_id e s = update_todo todo_id None None None (Some ''done'') None None e s"

definition delete_todo :: "int \<Rightarrow> env \<Rightarrow> manager \<Rightarrow> (py_error + result) \<times> manager" where
  "delete_todo todo_id e s =
     (case u_load_todos True e s of
        (todos, s1) \<Rightarrow>
          (case filterE (\<lambda>t. bindE (ditem t ''id'') (\<lambda>v. Inr (v \<noteq> JInt todo_id))) todos of
             Inl err \<Rightarrow> (Inl err, s1)
           | Inr new_todos \<Rightarrow>
               if length new_todos = length todos
               then (Inr (Failure [''Todo '' @ str_int todo_id @ '' not found'']), s1)
               else
                 (case u_save_todos new_todos e s1 of
                    (saved, s2) \<Rightarrow>
                      if saved then (Inr (Message (''Todo '' @ str_int todo_id @ '' deleted'')), s2)
                      else (Inr (Failure [''Failed to save todos'']), s2))))"

text \<open>\<open>v not in todo_ids\<close> for a list of integers.\<close>

definition not_in_ints :: "jval \<Rightarrow> int list \<Rightarrow> bool" where
  "not_in_ints v ids = (case v of JInt n \<Rightarrow> n \<notin> set ids | _ \<Rightarrow> True)"

definition batch_delete_todos ::
  "int list \<Rightarrow> env \<Rightarrow> manager \<Rightarrow> (py_error + result) \<times> manager" where
  "batch_delete_todos todo_ids e s =
     (case u_load_todos True e s of
        (todos, s1) \<Rightarrow>
          (case filterE (\<lambda>t. bindE (ditem t ''id'') (\<lambda>v. Inr (not_in_ints v todo_ids))) todos of
             Inl err \<Rightarrow> (Inl err, s1)
           | Inr new_todos \<Rightarrow>
               (let deleted_count = length todos - length new_todos in
                if deleted_count = 0 then (Inr (Failure [''No matching todos found'']), s1)
                else
                  (case u_save_todos new_todos e s1 of
                     (saved, s2) \<Rightarrow>
                       if saved
                       then (Inr (Message (str_nat deleted_count @ '' todos deleted'')), s2)
                       else (Inr (Failure [''Failed to save todos'']), s2)))))"

subsection \<open>Listing: filters, sort and pagination\<close>

text \<open>\<open>str.lower\<close> on the ASCII letters, \<open>a in b\<close> for two strings, and the same two
  operations on a value that need not be a string.\<close>

definition lower_char :: "char \<Rightarrow> char" where
  "lower_char c =
     (if CHR ''A'' \<le> c \<and> c \<le> CHR ''Z'' then char_of (of_char c + (32::nat)) else c)"

definition lower :: "string \<Rightarrow> string" where
  "lower x = map lower_char x"

fun is_prefix :: "string \<Rightarrow> string \<Rightarrow> bool" where
  "is_prefix [] ys = True"
| "is_prefix (x # xs) [] = False"
| "is_prefix (x # xs) (y # ys) = (x = y \<and> is_prefix xs ys)"

fun substring :: "string \<Rightarrow> string \<Rightarrow> bool" where
  "substring xs [] = (xs = [])"
| "substring xs (y # ys) = (if is_prefix xs (y # ys) then True else substring xs ys)"

definition py_lower :: "jval \<Rightarrow> py_error + string" where
  "py_lower v = (case v of JStr x \<Rightarrow> Inr (lower x) | _ \<Rightarrow> Inl AttributeError)"

definition py_in :: "string \<Rightarrow> jval \<Rightarrow> py_error + bool" where
  "py_in x v =
     (case v of
        JList l \<Rightarrow> Inr (x \<in> set l)
      | JStr y \<Rightarrow> Inr (substring x y)
      | _ \<Rightarrow> Inl TypeError)"

text \<open>The conditions of the comprehensions of \<open>list_todos\<close>; \<open>or\<close> and \<open>and\<close> do not
  evaluate their second operand when the first decides.\<close>

definition matches_search :: "string \<Rightarrow> todo \<Rightarrow> py_error + bool" where
  "matches_search search_lower t =
     bindE (py_lower (dget_default t ''title'' (JStr []))) (\<lambda>ti.
       if substring search_lower ti then Inr True
       else bindE (py_lower (dget_default t ''description'' (JStr [])))
              (\<lambda>d. Inr (substring search_lower d)))"

definition is_overdue :: "string \<Rightarrow> todo \<Rightarrow> py_error + bool" where
  "is_overdue day t =
     (if truthy (dget t ''due_date'') then py_lt (dget t ''due_date'') (JStr day)
      else Inr False)"

definition is_upcoming :: "string \<Rightarrow> todo \<Rightarrow> py_error + bool" where
  "is_upcoming day t =
     (if truthy (dget t ''due_date'') then py_gt (dget t ''due_date'') (JStr day)
      else Inr False)"

text \<open>
  Each stage of \<open>list_todos\<close> either goes on with a list of records (\<open>Inr\<close>) or ends the
  operation (\<open>Inl\<close>), with an exception or with the failure dict it returns.
\<close>

type_synonym stage = "(py_error + result) + todo list"

definition raising :: "py_error + todo list \<Rightarrow> stage" where
  "raising m = (case m of Inl e \<Rightarrow> Inl (Inl e) | Inr xs \<Rightarrow> Inr xs)"

definition filter_status :: "string option \<Rightarrow> todo list \<Rightarrow> stage" where
  "filter_status status todos =
     (case status of
        None \<Rightarrow> Inr todos
      | Some st \<Rightarrow>
          if st = [] then Inr todos
          else if st \<notin> set VALID_STATUSES
          then Inl (Inr (Failure [''Invalid status. Must be one of: ''
                                   @ join '', '' VALID_STATUSES]))
          else Inr (filter (\<lambda>t. dget t ''status'' = JStr st) todos))"

definition filter_priority :: "string option \<Rightarrow> todo list \<Rightarrow> stage" where
  "filter_priority priority todos =
     (case priority of
        None \<Rightarrow> Inr todos
      | Some pr \<Rightarrow>
          if pr = [] then Inr todos
          else if pr \<notin> set VALID_PRIORITIES
          then Inl (Inr (Failure [''Invalid priority. Must be one of: ''
                                   @ join '', '' VALID_PRIORITIES]))
          else Inr (filter (\<lambda>t. dget t ''priority'' = JStr pr) todos))"

definition filter_search :: "string option \<Rightarrow> todo list \<Rightarrow> stage" where
  "filter_search search todos =
     (case search of
        None \<Rightarrow> Inr todos
      | Some x \<Rightarrow>
          if x = [] then Inr todos
          else raising (filterE (matches_search (lower x)) todos))"

definition filter_tag :: "string option \<Rightarrow> todo list \<Rightarrow> stage" where
  "filter_tag tag todos =
     (case tag of
        None \<Rightarrow> Inr todos
      | Some x \<Rightarrow>
          if x = [] then Inr todos
          else raising (filterE (\<lambda>t. py_in x (dget_default t ''tags'' (JList []))) todos))"

definition filter_due :: "string option \<Rightarrow> string \<Rightarrow> todo list \<Rightarrow> stage" where
  "filter_due due_date_filter day todos =
     (case due_date_filter of
        None \<Rightarrow> Inr todos
      | Some x \<Rightarrow>
          if x = [] then Inr todos
          else if x = ''overdue'' then raising (filterE (is_overdue day) todos)
          else if x = ''today'' then Inr (filter (\<lambda>t. dget t ''due_date'' = JStr day) todos)
          else if x = ''upcoming'' then raising (filterE (is_upcoming day) todos)
          else if x = ''no_date'' then Inr (filter (\<lambda>t. \<not> truthy (dget t ''due_date'')) todos)
          else Inl (Inr (Failure
            [''Invalid due_date_filter. Must be one of: overdue, today, upcoming, no_date''])))"

text \<open>
  \<open>list.sort(key=..., reverse=...)\<close>: a stable sort that compares keys with \<open><\<close> only and
  raises what a comparison raises. It is modelled by a stable insertion sort: an element
  is placed before the first element of the sorted rest whose key is not smaller. With
  \<open>reverse=True\<close> the list is reversed, sorted and reversed again, which is how CPython
  keeps the original order among equal keys. Keys here fall into classes (integers,
  strings, lists of strings) that compare within a class and raise across classes, and
  null raises against everything: on such keys every comparison sort raises on the same
  inputs, those of two or more elements whose keys are not all in one class.
\<close>

fun insort_py :: "('a \<Rightarrow> jval) \<Rightarrow> 'a \<Rightarrow> 'a list \<Rightarrow> py_error + 'a list" where
  "insort_py key x [] = Inr [x]"
| "insort_py key x (y # ys) =
     (case py_lt (key y) (key x) of
        Inl e \<Rightarrow> Inl e
      | Inr b \<Rightarrow>
          if b then (case insort_py key x ys of Inl e \<Rightarrow> Inl e | Inr zs \<Rightarrow> Inr (y # zs))
          else Inr (x # y # ys))"

fun sort_py :: "('a \<Rightarrow> jval) \<Rightarrow> 'a list \<Rightarrow> py_error + 'a list" where
  "sort_py key [] = Inr []"
| "sort_py key (x # xs) =
     (case sort_py key xs of Inl e \<Rightarrow> Inl e | Inr ys \<Rightarrow> insort_py key x ys)"

definition py_sort :: "('a \<Rightarrow> jval) \<Rightarrow> bool \<Rightarrow> 'a list \<Rightarrow> py_error + 'a list" where
  "py_sort key reverse xs =
     (if reverse
      then (case sort_py key (rev xs) of Inl e \<Rightarrow> Inl e | Inr ys \<Rightarrow> Inr (rev ys))
      else sort_py key xs)"

definition valid_sort_fields :: "string list" where
  "valid_sort_fields =
     [''id'', ''title'', ''due_date'', ''status'', ''priority'', ''created_at'', ''updated_at'']"

definition sort_key :: "string \<Rightarrow> todo \<Rightarrow> jval" where
  "sort_key sort_by x = dget_default x sort_by (JStr [])"

definition sort_todos :: "string \<Rightarrow> string \<Rightarrow> todo list \<Rightarrow> stage" where
  "sort_todos sort_by sort_order todos =
     (if sort_by \<notin> set valid_sort_fields
      then Inl (Inr (Failure [''Invalid sort_by. Must be one of: ''
                               @ join '', '' valid_sort_fields]))
      else raising (py_sort (sort_key sort_by) (lower sort_order = ''desc'') todos))"

text \<open>The slice \<open>xs[a:b]\<close>: a negative bound counts from the end, and both bounds are
  clipped to the list.\<close>

definition slice_bound :: "int \<Rightarrow> nat \<Rightarrow> nat" where
  "slice_bound i n = (if i < 0 then nat (max 0 (int n + i)) else min (nat i) n)"

definition py_slice :: "int \<Rightarrow> int \<Rightarrow> 'a list \<Rightarrow> 'a list" where
  "py_slice a b xs =
     (let lo = slice_bound a (length xs); hi = slice_bound b (length xs)
      in take (hi - lo) (drop lo xs))"

text \<open>The five filters in the order of the source, and the records after the filters and
  the sort, before pagination.\<close>

definition filter_todos ::
  "string option \<Rightarrow> string option \<Rightarrow> string option \<Rightarrow> string option \<Rightarrow> string option \<Rightarrow>
   string \<Rightarrow> todo list \<Rightarrow> stage" where
  "filter_todos status priority search tag due_date_filter day todos =
     bindE (filter_status status todos) (\<lambda>f1.
     bindE (filter_priority priority f1) (\<lambda>f2.
     bindE (filter_search search f2) (\<lambda>f3.
     bindE (filter_tag tag f3) (\<lambda>f4.
       filter_due due_date_filter day f4))))"

definition select_todos ::
  "string option \<Rightarrow> string option \<Rightarrow> string option \<Rightarrow> string option \<Rightarrow> string option \<Rightarrow>
   string \<Rightarrow> string \<Rightarrow> string \<Rightarrow> todo list \<Rightarrow> stage" where
  "select_todos status priority search tag due_date_filter sort_by sort_order day todos =
     bindE (filter_todos status priority search tag due_date_filter day todos)
       (sort_todos sort_by sort_order)"

definition list_todos ::
  "string option \<Rightarrow> string option \<Rightarrow> string option \<Rightarrow> string option \<Rightarrow> string option \<Rightarrow>
   string \<Rightarrow> string \<Rightarrow> int \<Rightarrow> int \<Rightarrow> env \<Rightarrow> manager \<Rightarrow> (py_error + result) \<times> manager" where
  "list_todos status priority search tag due_date_filter sort_by sort_order limit offset e s =
     (case u_load_todos False e s of
        (todos, s1) \<Rightarrow>
          (case select_todos status priority search tag due_date_filter sort_by sort_order
                  (today e) todos of
             Inl outcome \<Rightarrow> (outcome, s1)
           | Inr filtered_todos \<Rightarrow>
               (case mapE u_serialize_todo (py_slice offset (offset + limit) filtered_todos) of
                  Inl err \<Rightarrow> (Inl err, s1)
                | Inr serialized_todos \<Rightarrow>
                    (Inr (Listing serialized_todos (int (length filtered_todos)) limit offset),
                     s1))))"

subsection \<open>Outcomes and sample inputs\<close>

text \<open>An operation reports success when it returns a dict whose \<open>success\<close> is true.\<close>

definition is_success :: "py_error + result \<Rightarrow> bool" where
  "is_success r = (case r of Inl e \<Rightarrow> False | Inr (Failure errs) \<Rightarrow> False | Inr _ \<Rightarrow> True)"

text \<open>A manager that has just been constructed next to no file, and an environment in
  which every file system call succeeds.\<close>

definition fresh :: manager where
  "fresh = \<lparr>backing_file = None, backup_dir = ''backups'', backups = Map.empty,
             todos_cache = None, last_load_time = None\<rparr>"

definition env0 :: env where
  "env0 = \<lparr>iso_created = ''2024-05-01T10:00:00.000001'',
            iso_updated = ''2024-05-01T10:00:00.000002'',
            today = ''2024-05-01'', load_now = 1000000, read_ok = True,
            corrupt_stamp = ''20240501_100000'', corrupt_copy_ok = True,
            backup_stamp = ''20240501_100001'', backup_copy_ok = True,
            write_res = Written, save_now = 1000003\<rparr>"

text \<open>The same environment with a disk that refuses the write; a manager whose file is
  not JSON; a manager that loaded an empty store one second before \<open>load_now env0\<close>.\<close>

definition env_open_fails :: env where
  "env_open_fails = env0\<lparr>write_res := Open_fails\<rparr>"

definition corrupted :: manager where
  "corrupted = fresh\<lparr>backing_file := Some (Garbage ''[{'')\<rparr>"

definition cached :: manager where
  "cached = fresh\<lparr>todos_cache := Some [], last_load_time := Some 0\<rparr>"

text \<open>No two records share an id, in a list of records and in a manager: in the
  records of its file, when the file is a JSON array, and in its cache.\<close>

definition ids_unique :: "todo list \<Rightarrow> bool" where
  "ids_unique todos = distinct (map (\<lambda>t. t ''id'') todos)"

definition store_ids_unique :: "manager \<Rightarrow> bool" where
  "store_ids_unique s =
     ((case backing_file s of Some (Json todos) \<Rightarrow> ids_unique todos | _ \<Rightarrow> True)
      \<and> (case todos_cache s of Some todos \<Rightarrow> ids_unique todos | None \<Rightarrow> True))"

text \<open>Two stored records with the ids 1 and 3, and a manager whose file holds just
  these: the store after the record 2 has been deleted.\<close>

definition todo1 :: todo where
  "todo1 = (new_todo ''a'' [] None ''pending'' ''medium'' None env0)(''id'' \<mapsto> JInt 1)"

definition todo3 :: todo where
  "todo3 = (new_todo ''c'' ''later'' (Some ''2024-06-01'') ''pending'' ''high'' (Some [''x'']) env0)
             (''id'' \<mapsto> JInt 3)"

definition gap_store :: manager where
  "gap_store = fresh\<lparr>backing_file := Some (Json [todo1, todo3])\<rparr>"

text \<open>Three stored records of which the first and the third have the same priority, and
  a manager whose file holds them in this order.\<close>

definition tie_a :: todo where
  "tie_a = (new_todo ''a'' [] None ''pending'' ''high'' None env0)(''id'' \<mapsto> JInt 1)"

definition tie_b :: todo where
  "tie_b = (new_todo ''b'' [] None ''pending'' ''low'' None env0)(''id'' \<mapsto> JInt 2)"

definition tie_c :: todo where
  "tie_c = (new_todo ''c'' [] None ''pending'' ''high'' None env0)(''id'' \<mapsto> JInt 3)"

definition tie_store :: manager where
  "tie_store = fresh\<lparr>backing_file := Some (Json [tie_a, tie_b, tie_c])\<rparr>"

section \<open>Properties\<close>

subsection \<open>Backup, load and save\<close>

lemma u_create_backup_frame:
  "todos_cache (snd (u_create_backup x st ok s)) = todos_cache s"
  "last_load_time (snd (u_create_backup x st ok s)) = last_load_time s"
  "backing_file (snd (u_create_backup x st ok s)) = backing_file s"
  "backup_dir (snd (u_create_backup x st ok s)) = backup_dir s"
  by (simp_all add: u_create_backup_def Let_def split: option.splits)

lemma u_save_todos_fails:
  assumes "write_res e \<noteq> Written"
  shows "fst (u_save_todos todos e s) = False"
    and "todos_cache (snd (u_save_todos todos e s)) = todos_cache s"
    and "last_load_time (snd (u_save_todos todos e s)) = last_load_time s"
  using assms
  by (simp_all add: u_save_todos_def Let_def u_create_backup_frame split: write_outcome.splits)

lemma u_save_todos_failsD:
  "write_res e \<noteq> Written \<Longrightarrow> u_save_todos todos e s = (b, s') \<Longrightarrow>
     \<not> b \<and> todos_cache s' = todos_cache s \<and> last_load_time s' = last_load_time s"
  using u_save_todos_fails[of e todos s] by simp

lemma add_todo_write_fails:
  assumes "write_res e \<noteq> Written"
  shows "\<not> is_success (fst (add_todo ti d dd st pr tg e s))"
    and "snd (add_todo ti d dd st pr tg e s) = s \<or>
         todos_cache (snd (add_todo ti d dd st pr tg e s))
           = todos_cache (snd (u_load_todos True e s)) \<and>
         last_load_time (snd (add_todo ti d dd st pr tg e s))
           = last_load_time (snd (u_load_todos True e s))"
  by (auto dest!: u_save_todos_failsD[OF assms]
        simp: add_todo_def Let_def is_success_def split: sum.splits prod.splits)

lemma update_todo_write_fails:
  assumes "write_res e \<noteq> Written"
  shows "\<not> is_success (fst (update_todo i ti d dd st pr tg e s))"
    and "todos_cache (snd (update_todo i ti d dd st pr tg e s))
           = todos_cache (snd (u_load_todos True e s))"
    and "last_load_time (snd (update_todo i ti d dd st pr tg e s))
           = last_load_time (snd (u_load_todos True e s))"
  by (auto dest!: u_save_todos_failsD[OF assms]
        simp: update_todo_def Let_def is_success_def
        split: sum.splits prod.splits option.splits)

lemma delete_todo_write_fails:
  assumes "write_res e \<noteq> Written"
  shows "\<not> is_success (fst (delete_todo i e s))"
    and "todos_cache (snd (delete_todo i e s)) = todos_cache (snd (u_load_todos True e s))"
    and "last_load_time (snd (delete_todo i e s))
           = last_load_time (snd (u_load_todos True e s))"
  by (auto dest!: u_save_todos_failsD[OF assms]
        simp: delete_todo_def Let_def is_success_def
        split: sum.splits prod.splits option.splits)

lemma batch_delete_todos_write_fails:
  assumes "write_res e \<noteq> Written"
  shows "\<not> is_success (fst (batch_delete_todos ids e s))"
    and "todos_cache (snd (batch_delete_todos ids e s))
           = todos_cache (snd (u_load_todos True e s))"
    and "last_load_time (snd (batch_delete_todos ids e s))
           = last_load_time (snd (u_load_todos True e s))"
  by (auto dest!: u_save_todos_failsD[OF assms]
        simp: batch_delete_todos_def Let_def is_success_def
        split: sum.splits prod.splits option.splits)

lemma written_env:
  "new_todo ti d dd st pr tg (e\<lparr>write_res := w\<rparr>) = new_todo ti d dd st pr tg e"
  "merge_todo old uti ud udd ust upr utg (e\<lparr>write_res := w\<rparr>)
     = merge_todo old uti ud udd ust upr utg e"
  "u_load_todos force (e\<lparr>write_res := w\<rparr>) s = u_load_todos force e s"
  by (simp_all add: new_todo_def merge_todo_def u_load_todos_def Let_def
        split: option.splits fcontent.splits)

lemma u_save_todos_False:
  "write_res e \<noteq> Written \<Longrightarrow> \<exists>s'. u_save_todos todos e s = (False, s')"
  using u_save_todos_fails(1)[of e todos s] by (cases "u_save_todos todos e s") simp

lemma add_todo_save_fails:
  assumes w: "write_res e \<noteq> Written"
    and suc: "is_success (fst (add_todo ti d dd st pr tg (e\<lparr>write_res := Written\<rparr>) s))"
  shows "fst (add_todo ti d dd st pr tg e s) = Inr (Failure [''Failed to save todo''])"
proof -
  let ?t = "new_todo ti d dd st pr tg e"
  obtain todos s1 where l: "u_load_todos True e s = (todos, s1)"
    by (cases "u_load_todos True e s")
  from suc obtain errs where val: "u_validate_todo ?t = Inr errs"
    by (cases "u_validate_todo ?t") (simp_all add: add_todo_def Let_def is_success_def written_env)
  from suc val have errs: "errs = []"
    by (cases "errs = []") (simp_all add: add_todo_def Let_def is_success_def written_env)
  from suc val errs l obtain v where v: "next_id todos = Inr v"
    by (cases "next_id todos") (simp_all add: add_todo_def Let_def is_success_def written_env)
  from u_save_todos_False[OF w] obtain s2
    where sv: "u_save_todos (todos @ [?t(''id'' \<mapsto> v)]) e s1 = (False, s2)"
    by blast
  show ?thesis
    using val errs l v sv by (simp add: add_todo_def Let_def)
qed

lemma update_todo_save_fails:
  assumes w: "write_res e \<noteq> Written"
    and suc: "is_success (fst (update_todo i ti d dd st pr tg (e\<lparr>write_res := Written\<rparr>) s))"
  shows "fst (update_todo i ti d dd st pr tg e s) = Inr (Failure [''Failed to save todo''])"
proof -
  obtain todos s1 where l: "u_load_todos True e s = (todos, s1)"
    by (cases "u_load_todos True e s")
  from suc l obtain oi where oi: "find_index i todos = Inr oi"
    by (cases "find_index i todos") (simp_all add: update_todo_def is_success_def written_env)
  from suc l oi obtain j where j: "oi = Some j"
    by (cases oi) (simp_all add: update_todo_def is_success_def written_env)
  let ?u = "merge_todo (todos ! j) ti d dd st pr tg e"
  from suc l oi j obtain errs where val: "u_validate_todo ?u = Inr errs"
    by (cases "u_validate_todo ?u")
       (simp_all add: update_todo_def Let_def is_success_def written_env)
  from suc l oi j val have errs: "errs = []"
    by (cases "errs = []") (simp_all add: update_todo_def Let_def is_success_def written_env)
  from u_save_todos_False[OF w] obtain s2
    where sv: "u_save_todos (todos[j := ?u]) e s1 = (False, s2)"
    by blast
  show ?thesis
    using l oi j val errs sv by (simp add: update_todo_def Let_def)
qed

lemma delete_todo_save_fails:
  assumes w: "write_res e \<noteq> Written"
    and suc: "is_success (fst (delete_todo i (e\<lparr>write_res := Written\<rparr>) s))"
  shows "fst (delete_todo i e s) = Inr (Failure [''Failed to save todos''])"
proof -
  let ?p = "\<lambda>t. bindE (ditem t ''id'') (\<lambda>v. Inr (v \<noteq> JInt i))"
  obtain todos s1 where l: "u_load_todos True e s = (todos, s1)"
    by (cases "u_load_todos True e s")
  from suc l obtain new_todos where f: "filterE ?p todos = Inr new_todos"
    by (cases "filterE ?p todos") (simp_all add: delete_todo_def is_success_def written_env)
  from suc l f have n: "length new_todos \<noteq> length todos"
    by (cases "length new_todos = length todos")
       (simp_all add: delete_todo_def is_success_def written_env)
  from u_save_todos_False[OF w] obtain s2 where sv: "u_save_todos new_todos e s1 = (False, s2)"
    by blast
  show ?thesis
    using l f n sv by (simp add: delete_todo_def)
qed

lemma batch_delete_todos_save_fails:
  assumes w: "write_res e \<noteq> Written"
    and suc: "is_success (fst (batch_delete_todos ids (e\<lparr>write_res := Written\<rparr>) s))"
  shows "fst (batch_delete_todos ids e s) = Inr (Failure [''Failed to save todos''])"
proof -
  let ?p = "\<lambda>t. bindE (ditem t ''id'') (\<lambda>v. Inr (not_in_ints v ids))"
  obtain todos s1 where l: "u_load_todos True e s = (todos, s1)"
    by (cases "u_load_todos True e s")
  from suc l obtain new_todos where f: "filterE ?p todos = Inr new_todos"
    by (cases "filterE ?p todos")
       (simp_all add: batch_delete_todos_def is_success_def written_env)
  from suc l f have n: "length todos - length new_todos \<noteq> 0"
    by (cases "length todos - length new_todos = 0")
       (simp_all add: batch_delete_todos_def Let_def is_success_def written_env)
  from u_save_todos_False[OF w] obtain s2 where sv: "u_save_todos new_todos e s1 = (False, s2)"
    by blast
  show ?thesis
    using l f n sv by (simp add: batch_delete_todos_def Let_def)
qed

text \<open>
  Claim C3. When the write of the persist step fails, \<open>_save_todos\<close> returns \<open>False\<close> and
  leaves the cache and the cached load time as they were. No operation that saves then
  reports success, and a call that would have succeeded with a working disk returns the
  failure dict \<open>Failed to save todo\<close> (\<open>Failed to save todos\<close> for the deletes). The cache
  and load time such an operation leaves are those of its forced reload (for \<open>add_todo\<close>,
  which validates before it loads, the state can also be untouched).
\<close>

theorem save_failure_keeps_cache:
  assumes "write_res e \<noteq> Written"
  shows "fst (u_save_todos todos e s) = False
       \<and> todos_cache (snd (u_save_todos todos e s)) = todos_cache s
       \<and> last_load_time (snd (u_save_todos todos e s)) = last_load_time s
       \<and> \<not> is_success (fst (add_todo ti d dd st pr tg e s))
       \<and> (is_success (fst (add_todo ti d dd st pr tg (e\<lparr>write_res := Written\<rparr>) s)) \<longrightarrow>
            fst (add_todo ti d dd st pr tg e s) = Inr (Failure [''Failed to save todo'']))
       \<and> (snd (add_todo ti d dd st pr tg e s) = s \<or>
            todos_cache (snd (add_todo ti d dd st pr tg e s))
              = todos_cache (snd (u_load_todos True e s)) \<and>
            last_load_time (snd (add_todo ti d dd st pr tg e s))
              = last_load_time (snd (u_load_todos True e s)))
       \<and> \<not> is_success (fst (update_todo i uti ud udd ust upr utg e s))
       \<and> (is_success (fst (update_todo i uti ud udd ust upr utg (e\<lparr>write_res := Written\<rparr>) s))
            \<longrightarrow> fst (update_todo i uti ud udd ust upr utg e s)
                  = Inr (Failure [''Failed to save todo'']))
       \<and> todos_cache (snd (update_todo i uti ud udd ust upr utg e s))
            = todos_cache (snd (u_load_todos True e s))
       \<and> last_load_time (snd (update_todo i uti ud udd ust upr utg e s))
            = last_load_time (snd (u_load_todos True e s))
       \<and> \<not> is_success (fst (complete_todo i e s))
       \<and> \<not> is_success (fst (delete_todo i e s))
       \<and> (is_success (fst (delete_todo i (e\<lparr>write_res := Written\<rparr>) s)) \<longrightarrow>
            fst (delete_todo i e s) = Inr (Failure [''Failed to save todos'']))
       \<and> todos_cache (snd (delete_todo i e s)) = todos_cache (snd (u_load_todos True e s))
       \<and> last_load_time (snd (delete_todo i e s))
            = last_load_time (snd (u_load_todos True e s))
       \<and> \<not> is_success (fst (batch_delete_todos ids e s))
       \<and> (is_success (fst (batch_delete_todos ids (e\<lparr>write_res := Written\<rparr>) s)) \<longrightarrow>
            fst (batch_delete_todos ids e s) = Inr (Failure [''Failed to save todos'']))
       \<and> todos_cache (snd (batch_delete_todos ids e s))
            = todos_cache (snd (u_load_todos True e s))
       \<and> last_load_time (snd (batch_delete_todos ids e s))
            = last_load_time (snd (u_load_todos True e s))"
  using add_todo_write_fails(2)[OF assms, of ti d dd st pr tg s]
  by (simp add: complete_todo_def u_save_todos_fails[OF assms]
        add_todo_write_fails(1)[OF assms] update_todo_write_fails[OF assms]
        delete_todo_write_fails[OF assms] batch_delete_todos_write_fails[OF assms]
        add_todo_save_fails[OF assms] update_todo_save_fails[OF assms]
        delete_todo_save_fails[OF assms] batch_delete_todos_save_fails[OF assms])

theorem save_failure_keeps_cache_witness:
  "write_res env_open_fails \<noteq> Written
   \<and> fst (u_save_todos [] env_open_fails cached) = False
   \<and> todos_cache (snd (u_save_todos [] env_open_fails cached)) = Some []
   \<and> last_load_time (snd (u_save_todos [] env_open_fails cached)) = Some 0
   \<and> is_success (fst (add_todo ''a'' [] None ''pending'' ''medium'' None
                        (env_open_fails\<lparr>write_res := Written\<rparr>) cached))
   \<and> fst (add_todo ''a'' [] None ''pending'' ''medium'' None env_open_fails cached)
       = Inr (Failure [''Failed to save todo''])"
proof -
  have h: "write_res env_open_fails \<noteq> Written"
    by (simp add: env_open_fails_def env0_def)
  have c: "todos_cache cached = Some []" "last_load_time cached = Some 0"
    by (simp_all add: cached_def fresh_def)
  have a: "is_success (fst (add_todo ''a'' [] None ''pending'' ''medium'' None
                              (env_open_fails\<lparr>write_res := Written\<rparr>) cached))"
    by (simp add: add_todo_def env_open_fails_def env0_def cached_def fresh_def new_todo_def
          u_validate_todo_def check_title_def check_description_def check_due_date_def
          check_status_def check_priority_def check_tags_def bindE_def dget_def
          dget_default_def in_strings_def is_list_def VALID_STATUSES_def VALID_PRIORITIES_def
          u_load_todos_def cache_hit_def u_save_todos_def u_create_backup_def next_id_def
          ditem_def py_max_default_def u_serialize_todo_def is_success_def Let_def)
  note t = save_failure_keeps_cache[OF h, of "[]" cached "''a''" "[]" None "''pending''"
      "''medium''" None]
  have s1: "fst (u_save_todos [] env_open_fails cached) = False"
    using t[THEN conjunct1] .
  have s2: "todos_cache (snd (u_save_todos [] env_open_fails cached)) = Some []"
    using t[THEN conjunct2, THEN conjunct1] c by simp
  have s3: "last_load_time (snd (u_save_todos [] env_open_fails cached)) = Some 0"
    using t[THEN conjunct2, THEN conjunct2, THEN conjunct1] c by simp
  have f: "fst (add_todo ''a'' [] None ''pending'' ''medium'' None env_open_fails cached)
             = Inr (Failure [''Failed to save todo''])"
    using mp[OF t[THEN conjunct2, THEN conjunct2, THEN conjunct2, THEN conjunct2,
                  THEN conjunct1] a] .
  from h s1 s2 s3 a f show ?thesis
    by (intro conjI)
qed

text \<open>
  Claim C4. A load that reads the file (it is not answered from the cache, and reading
  raises nothing) and finds text that is not JSON takes a backup with the suffix
  \<open>corrupted\<close>, sets the cache to the empty list and returns the empty list; the file
  itself stays as it is. When the copy succeeds the backup directory holds the unparseable
  text under \<open>todos_backup_<timestamp>_corrupted.json\<close>. A caller such as \<open>list_todos\<close>
  gets an ordinary successful result with no records.
\<close>

theorem corrupted_load_recovers:
  assumes "\<not> cache_hit force_reload (load_now e) s"
    and "backing_file s = Some (Garbage g)"
    and "read_ok e"
  shows "u_load_todos force_reload e s =
           ([], (snd (u_create_backup (Some ''corrupted'') (corrupt_stamp e)
                        (corrupt_copy_ok e) s))
                  \<lparr>todos_cache := Some [], last_load_time := Some (load_now e)\<rparr>)
       \<and> todos_cache (snd (u_load_todos force_reload e s)) = Some []
       \<and> backing_file (snd (u_load_todos force_reload e s)) = Some (Garbage g)
       \<and> (corrupt_copy_ok e \<longrightarrow>
            backups (snd (u_load_todos force_reload e s))
              (path_join (backup_dir s) (''todos_backup_'' @ corrupt_stamp e @ ''_corrupted.json''))
              = Some (Garbage g))
       \<and> (\<not> force_reload \<longrightarrow>
            fst (list_todos None None None None None ''id'' ''asc'' limit offset e s)
              = Inr (Listing [] 0 limit offset))"
proof -
  have l: "u_load_todos force_reload e s =
             ([], (snd (u_create_backup (Some ''corrupted'') (corrupt_stamp e)
                          (corrupt_copy_ok e) s))
                    \<lparr>todos_cache := Some [], last_load_time := Some (load_now e)\<rparr>)"
    using assms by (simp add: u_load_todos_def Let_def)
  have b: "corrupt_copy_ok e \<Longrightarrow>
             backups (snd (u_create_backup (Some ''corrupted'') (corrupt_stamp e)
                             (corrupt_copy_ok e) s))
               (path_join (backup_dir s)
                  (''todos_backup_'' @ corrupt_stamp e @ ''_corrupted.json''))
               = Some (Garbage g)"
    using assms(2) by (simp add: u_create_backup_def Let_def)
  have q: "\<not> force_reload \<Longrightarrow>
             fst (list_todos None None None None None ''id'' ''asc'' limit offset e s)
               = Inr (Listing [] 0 limit offset)"
    using l
    by (simp add: list_todos_def select_todos_def filter_todos_def filter_status_def
          filter_priority_def
          filter_search_def filter_tag_def filter_due_def sort_todos_def
          valid_sort_fields_def py_sort_def raising_def bindE_def lower_def lower_char_def
          py_slice_def)
  show ?thesis
    using l b q assms(2) by (simp add: u_create_backup_frame)
qed

theorem corrupted_load_recovers_witness:
  "\<not> cache_hit False (load_now env0) corrupted
   \<and> backing_file corrupted = Some (Garbage ''[{'')
   \<and> read_ok env0
   \<and> corrupt_copy_ok env0
   \<and> fst (u_load_todos False env0 corrupted) = []
   \<and> todos_cache (snd (u_load_todos False env0 corrupted)) = Some []
   \<and> backups (snd (u_load_todos False env0 corrupted))
        ''backups/todos_backup_20240501_100000_corrupted.json'' = Some (Garbage ''[{'')
   \<and> fst (list_todos None None None None None ''id'' ''asc'' 100 0 env0 corrupted)
        = Inr (Listing [] 0 100 0)"
proof -
  have h1: "\<not> cache_hit False (load_now env0) corrupted"
    by (simp add: cache_hit_def corrupted_def fresh_def)
  have h2: "backing_file corrupted = Some (Garbage ''[{'')"
    by (simp add: corrupted_def fresh_def)
  have h3: "read_ok env0" "corrupt_copy_ok env0"
    by (simp_all add: env0_def)
  have p: "path_join (backup_dir corrupted)
             (''todos_backup_'' @ corrupt_stamp env0 @ ''_corrupted.json'')
           = ''backups/todos_backup_20240501_100000_corrupted.json''"
    by (simp add: path_join_def corrupted_def fresh_def env0_def)
  note r = corrupted_load_recovers[OF h1 h2 h3(1), of 100 0]
  have l: "fst (u_load_todos False env0 corrupted) = []"
    using r by simp
  have c: "todos_cache (snd (u_load_todos False env0 corrupted)) = Some []"
    using r by blast
  have b: "backups (snd (u_load_todos False env0 corrupted))
             (path_join (backup_dir corrupted)
                (''todos_backup_'' @ corrupt_stamp env0 @ ''_corrupted.json''))
           = Some (Garbage ''[{'')"
    using r h3(2) by blast
  have q: "fst (list_todos None None None None None ''id'' ''asc'' 100 0 env0 corrupted)
             = Inr (Listing [] 0 100 0)"
    using r by blast
  from h1 h2 h3 l c b[unfolded p] q show ?thesis
    by blast
qed

text \<open>
  Claim C7 says that a load answered from the cache refreshes the cached load time. It
  does not: with an empty store cached at time 0, a load one second later is answered from
  the cache and the load time is still 0.
\<close>

theorem cache_hit_refresh_counterexample:
  "cache_hit False (load_now env0) cached
   \<and> last_load_time (snd (u_load_todos False env0 cached)) \<noteq> Some (load_now env0)"
  by (simp add: cache_hit_def u_load_todos_def cached_def fresh_def env0_def)

text \<open>
  Claim C7, amended. A load answered from the cache returns the cached records and
  changes nothing of the manager, the load time included; a load that is not answered
  from the cache sets the load time to the current time.
\<close>

theorem cache_hit_leaves_state:
  "(cache_hit force_reload (load_now e) s \<longrightarrow>
      snd (u_load_todos force_reload e s) = s
      \<and> todos_cache s = Some (fst (u_load_todos force_reload e s)))
   \<and> (\<not> cache_hit force_reload (load_now e) s \<longrightarrow>
      last_load_time (snd (u_load_todos force_reload e s)) = Some (load_now e))"
  by (auto simp: u_load_todos_def cache_hit_def Let_def u_create_backup_frame
        split: option.splits fcontent.splits)

theorem cache_hit_leaves_state_witness:
  "(cache_hit False (load_now env0) cached
      \<and> snd (u_load_todos False env0 cached) = cached
      \<and> last_load_time (snd (u_load_todos False env0 cached)) = Some 0)
   \<and> (\<not> cache_hit False (load_now env0) fresh
      \<and> last_load_time (snd (u_load_todos False env0 fresh)) = Some 1000000)"
proof -
  have h1: "cache_hit False (load_now env0) cached"
    by (simp add: cache_hit_def cached_def fresh_def env0_def)
  have h2: "\<not> cache_hit False (load_now env0) fresh"
    by (simp add: cache_hit_def fresh_def)
  have t: "last_load_time cached = Some 0" "load_now env0 = 1000000"
    by (simp_all add: cached_def fresh_def env0_def)
  from cache_hit_leaves_state[of False env0 cached]
    cache_hit_leaves_state[of False env0 fresh] h1 h2 t
  show ?thesis by simp
qed

text \<open>
  Claim C8 says that with no backing file the backup, the manual backup operation
  included, returns nothing and no error result. The manual operation returns the failure
  dict: \<open>create_backup\<close> on a manager without a file.
\<close>

theorem manual_backup_counterexample:
  "backing_file fresh = None
   \<and> fst (create_backup env0 fresh) = Inr (Failure [''Failed to create backup''])"
  by (simp add: create_backup_def u_create_backup_def fresh_def)

text \<open>
  Claim C8, amended. With no backing file \<open>_create_backup\<close> does nothing and returns
  \<open>None\<close>, whatever its suffix; the manual operation \<open>create_backup\<close> then changes nothing
  either and returns the failure dict with the message \<open>Failed to create backup\<close>.
\<close>

theorem backup_without_file:
  assumes "backing_file s = None"
  shows "u_create_backup suffix timestamp copy_ok s = (None, s)
       \<and> create_backup e s = (Inr (Failure [''Failed to create backup'']), s)"
  using assms by (simp add: create_backup_def u_create_backup_def)

theorem backup_without_file_witness:
  "backing_file fresh = None
   \<and> u_create_backup (Some ''manual'') ''20240501_100001'' True fresh = (None, fresh)
   \<and> create_backup env0 fresh = (Inr (Failure [''Failed to create backup'']), fresh)"
proof -
  have h: "backing_file fresh = None"
    by (simp add: fresh_def)
  from backup_without_file[OF h, of "Some ''manual''" "''20240501_100001''" True env0] h
  show ?thesis by simp
qed

subsection \<open>Identifiers\<close>

lemma py_lt_InrD:
  "py_lt a b = Inr r \<Longrightarrow>
     (\<exists>x y. a = JInt x \<and> b = JInt y \<and> r = (x < y))
   \<or> (\<exists>x y. a = JStr x \<and> b = JStr y \<and> r = (x < y))
   \<or> (\<exists>x y. a = JList x \<and> b = JList y \<and> r = (x < y))"
  by (cases a; cases b) auto

lemma max_loop_int:
  "max_loop m xs = Inr (JInt n) \<Longrightarrow>
     (\<exists>k. m = JInt k \<and> k \<le> n) \<and> (\<forall>x\<in>set xs. \<exists>k. x = JInt k \<and> k \<le> n)
     \<and> JInt n \<in> set (m # xs)"
proof (induction xs arbitrary: m)
  case Nil
  then show ?case by simp
next
  case (Cons x xs)
  from Cons.prems obtain b where b: "py_gt x m = Inr b"
    and r: "max_loop (if b then x else m) xs = Inr (JInt n)"
    by (auto split: sum.splits)
  from Cons.IH[OF r] obtain k where k: "(if b then x else m) = JInt k" "k \<le> n"
    and rest: "\<forall>x\<in>set xs. \<exists>k. x = JInt k \<and> k \<le> n"
    and mem: "JInt n \<in> set ((if b then x else m) # xs)"
    by blast
  from b k(1) obtain i j where ij: "m = JInt i" "x = JInt j" "b = (i < j)"
    using py_lt_InrD[of m x b] by (auto simp: py_gt_def split: if_splits)
  with k have "i \<le> n" "j \<le> n" by (auto split: if_splits)
  with ij rest mem show ?case by (auto split: if_splits)
qed

lemma mapE_ditem:
  "mapE (\<lambda>t. ditem t k) todos = Inr vs \<Longrightarrow> map (\<lambda>t. t k) todos = map Some vs"
  by (induction todos arbitrary: vs) (auto simp: ditem_def split: option.splits sum.splits)

lemma next_id_char:
  assumes "next_id todos = Inr v"
  shows "\<exists>n. v = JInt n \<and> (todos = [] \<longrightarrow> n = 1)
           \<and> (\<forall>t\<in>set todos. \<exists>m. t ''id'' = Some (JInt m) \<and> m < n)
           \<and> (todos \<noteq> [] \<longrightarrow> (\<exists>t\<in>set todos. t ''id'' = Some (JInt (n - 1))))"
proof -
  from assms obtain vs w where vs: "mapE (\<lambda>t. ditem t ''id'') todos = Inr vs"
    and w: "py_max_default vs (JInt 0) = Inr w" and v: "py_add1 w = Inr v"
    by (auto simp: next_id_def bindE_def split: sum.splits)
  from v obtain k where k: "w = JInt k" "v = JInt (k + 1)"
    by (cases w) auto
  note ms = mapE_ditem[OF vs]
  show ?thesis
  proof (cases vs)
    case Nil
    with ms w k show ?thesis by (simp add: py_max_default_def)
  next
    case (Cons x rest)
    with w k have "max_loop x rest = Inr (JInt k)" by (simp add: py_max_default_def)
    from max_loop_int[OF this] Cons
    have all: "\<forall>y\<in>set vs. \<exists>j. y = JInt j \<and> j \<le> k" and mem: "JInt k \<in> set vs"
      by auto
    have a: "\<forall>t\<in>set todos. \<exists>m. t ''id'' = Some (JInt m) \<and> m < k + 1"
    proof
      fix t assume "t \<in> set todos"
      then have "t ''id'' \<in> set (map (\<lambda>t. t ''id'') todos)" by simp
      with ms have "t ''id'' \<in> Some ` set vs" by simp
      with all show "\<exists>m. t ''id'' = Some (JInt m) \<and> m < k + 1" by force
    qed
    from mem have "Some (JInt k) \<in> set (map Some vs)" by simp
    with ms have "Some (JInt k) \<in> set (map (\<lambda>t. t ''id'') todos)" by simp
    then have b: "\<exists>t\<in>set todos. t ''id'' = Some (JInt k)" by auto
    from Cons ms have "todos \<noteq> []" by auto
    with a b k show ?thesis by simp
  qed
qed

lemma next_id_fresh: "next_id todos = Inr v \<Longrightarrow> \<forall>t\<in>set todos. t ''id'' \<noteq> Some v"
  using next_id_char[of todos v] by fastforce

lemma filterE_filter: "filterE p xs = Inr ys \<Longrightarrow> ys = filter (\<lambda>x. p x = Inr True) xs"
  by (induction xs arbitrary: ys) (auto split: sum.splits)

lemma ids_unique_filter: "ids_unique todos \<Longrightarrow> ids_unique (filter P todos)"
  by (simp add: ids_unique_def distinct_map_filter)

lemma find_index_Some:
  "find_index todo_id todos = Inr (Some i) \<Longrightarrow>
     i < length todos \<and> (todos ! i) ''id'' = Some (JInt todo_id)"
proof (induction todos arbitrary: i)
  case Nil
  then show ?case by simp
next
  case (Cons t ts)
  then show ?case
    by (cases i) (auto split: option.splits if_splits sum.splits)
qed

lemma find_index_None:
  "(\<forall>t\<in>set todos. \<exists>v. t ''id'' = Some v \<and> v \<noteq> JInt todo_id) \<Longrightarrow>
     find_index todo_id todos = Inr None"
  by (induction todos) auto

lemma merge_todo_other:
  "k \<notin> {''title'', ''description'', ''due_date'', ''status'', ''priority'', ''tags'',
         ''updated_at''} \<Longrightarrow>
     merge_todo old ti d dd st pr tg e k = old k"
  by (simp add: merge_todo_def set_if_def split: option.splits)

lemma merge_todo_id: "merge_todo old ti d dd st pr tg e ''id'' = old ''id''"
  by (simp add: merge_todo_other)

lemma ids_unique_update:
  assumes "ids_unique todos" and "i < length todos"
  shows "ids_unique (todos[i := merge_todo (todos ! i) ti d dd st pr tg e])"
proof -
  have "map (\<lambda>t. t ''id'') (todos[i := merge_todo (todos ! i) ti d dd st pr tg e])
          = (map (\<lambda>t. t ''id'') todos)[i := (todos ! i) ''id'']"
    by (simp add: map_update merge_todo_id)
  also have "\<dots> = map (\<lambda>t. t ''id'') todos"
    using assms(2) by (simp add: list_update_same_conv)
  finally show ?thesis using assms(1) by (simp add: ids_unique_def)
qed

lemma ids_unique_append:
  assumes "ids_unique todos" and "next_id todos = Inr v"
  shows "ids_unique (todos @ [t(''id'' \<mapsto> v)])"
  using assms next_id_fresh[OF assms(2)] by (auto simp: ids_unique_def)

lemma u_load_todos_unique:
  assumes "store_ids_unique s" and "u_load_todos force e s = (todos, s1)"
  shows "store_ids_unique s1 \<and> ids_unique todos \<and> backing_file s1 = backing_file s"
  using assms
  by (auto simp: u_load_todos_def store_ids_unique_def ids_unique_def Let_def cache_hit_def
        u_create_backup_frame split: option.splits fcontent.splits if_splits)

lemma u_save_todos_unique:
  assumes "store_ids_unique s" and "ids_unique todos" and "u_save_todos todos e s = (b, s')"
  shows "store_ids_unique s'"
  using assms
  by (auto simp: u_save_todos_def store_ids_unique_def Let_def u_create_backup_frame
        split: write_outcome.splits)

lemma add_todo_unique:
  assumes "store_ids_unique s"
  shows "store_ids_unique (snd (add_todo ti d dd st pr tg e s))"
proof -
  obtain todos s1 where l: "u_load_todos True e s = (todos, s1)"
    by (cases "u_load_todos True e s")
  note u = u_load_todos_unique[OF assms l]
  show ?thesis
  proof (cases "next_id todos")
    case (Inl err)
    with l u assms show ?thesis
      by (auto simp: add_todo_def Let_def split: sum.splits)
  next
    case (Inr v)
    obtain b s2 where sv: "u_save_todos
        (todos @ [(new_todo ti d dd st pr tg e)(''id'' \<mapsto> v)]) e s1 = (b, s2)"
      by (cases "u_save_todos (todos @ [(new_todo ti d dd st pr tg e)(''id'' \<mapsto> v)]) e s1")
    from u Inr have "ids_unique (todos @ [(new_todo ti d dd st pr tg e)(''id'' \<mapsto> v)])"
      by (simp add: ids_unique_append)
    from u_save_todos_unique[OF _ this sv] u have "store_ids_unique s2" by simp
    with l Inr sv assms show ?thesis
      by (auto simp: add_todo_def Let_def split: sum.splits)
  qed
qed

lemma update_todo_unique:
  assumes "store_ids_unique s"
  shows "store_ids_unique (snd (update_todo i ti d dd st pr tg e s))"
proof -
  obtain todos s1 where l: "u_load_todos True e s = (todos, s1)"
    by (cases "u_load_todos True e s")
  note u = u_load_todos_unique[OF assms l]
  have sv: "\<And>j b s2. find_index i todos = Inr (Some j) \<Longrightarrow>
      u_save_todos (todos[j := merge_todo (todos ! j) ti d dd st pr tg e]) e s1 = (b, s2) \<Longrightarrow>
      store_ids_unique s2"
    using u u_save_todos_unique ids_unique_update find_index_Some by blast
  show ?thesis
    using l u sv
    by (auto simp: update_todo_def Let_def split: sum.splits option.splits prod.splits)
qed

lemma delete_todo_unique:
  assumes "store_ids_unique s"
  shows "store_ids_unique (snd (delete_todo i e s))"
proof -
  obtain todos s1 where l: "u_load_todos True e s = (todos, s1)"
    by (cases "u_load_todos True e s")
  note u = u_load_todos_unique[OF assms l]
  have sv: "\<And>p ys b s2. filterE p todos = Inr ys \<Longrightarrow> u_save_todos ys e s1 = (b, s2) \<Longrightarrow>
      store_ids_unique s2"
    using u u_save_todos_unique ids_unique_filter filterE_filter by metis
  show ?thesis
    using l u sv
    by (auto simp: delete_todo_def Let_def split: sum.splits option.splits prod.splits)
qed

lemma batch_delete_todos_unique:
  assumes "store_ids_unique s"
  shows "store_ids_unique (snd (batch_delete_todos ids e s))"
proof -
  obtain todos s1 where l: "u_load_todos True e s = (todos, s1)"
    by (cases "u_load_todos True e s")
  note u = u_load_todos_unique[OF assms l]
  have sv: "\<And>p ys b s2. filterE p todos = Inr ys \<Longrightarrow> u_save_todos ys e s1 = (b, s2) \<Longrightarrow>
      store_ids_unique s2"
    using u u_save_todos_unique ids_unique_filter filterE_filter by metis
  show ?thesis
    using l u sv
    by (auto simp: batch_delete_todos_def Let_def split: sum.splits option.splits prod.splits)
qed


lemma todo_ids: "todo1 ''id'' = Some (JInt 1)" "todo3 ''id'' = Some (JInt 3)"
  by (simp_all add: todo1_def todo3_def)

text \<open>
  Claim C1. If no two records of the store share an id (in the file and in the cache),
  the same holds after \<open>add_todo\<close>, \<open>update_todo\<close>, \<open>complete_todo\<close>, \<open>delete_todo\<close> and
  \<open>batch_delete_todos\<close>, whatever their arguments and whatever the environment does.
\<close>

theorem ids_stay_unique:
  assumes "store_ids_unique s"
  shows "store_ids_unique (snd (add_todo ti d dd st pr tg e s))
       \<and> store_ids_unique (snd (update_todo i uti ud udd ust upr utg e s))
       \<and> store_ids_unique (snd (complete_todo i e s))
       \<and> store_ids_unique (snd (delete_todo i e s))
       \<and> store_ids_unique (snd (batch_delete_todos ids e s))"
  using assms
  by (simp add: complete_todo_def add_todo_unique update_todo_unique delete_todo_unique
        batch_delete_todos_unique)

theorem ids_stay_unique_witness:
  "store_ids_unique gap_store
   \<and> store_ids_unique (snd (add_todo ''d'' [] None ''pending'' ''medium'' None env0 gap_store))
   \<and> store_ids_unique (snd (update_todo 3 (Some ''e'') None None None None None env0 gap_store))
   \<and> store_ids_unique (snd (complete_todo 3 env0 gap_store))
   \<and> store_ids_unique (snd (delete_todo 3 env0 gap_store))
   \<and> store_ids_unique (snd (batch_delete_todos [1, 2] env0 gap_store))"
proof -
  have h: "store_ids_unique gap_store"
    by (simp add: store_ids_unique_def ids_unique_def gap_store_def fresh_def todo_ids)
  from ids_stay_unique[OF h, of "''d''" "[]" None "''pending''" "''medium''" None env0
      3 "Some ''e''" None None None None None "[1, 2]"] h
  show ?thesis by simp
qed


lemma u_serialize_todo_id: "u_serialize_todo t = Inr r \<Longrightarrow> r ''id'' = t ''id''"
  by (auto simp: u_serialize_todo_def bindE_def ditem_def split: option.splits)

lemma u_save_todos_ok:
  "u_save_todos todos e s = (True, s') \<Longrightarrow> backing_file s' = Some (Json todos)"
  by (auto simp: u_save_todos_def Let_def split: write_outcome.splits)

lemma add_todo_success:
  assumes "is_success (fst (add_todo ti d dd st pr tg e s))"
  shows "\<exists>v r. next_id (fst (u_load_todos True e s)) = Inr v
           \<and> fst (add_todo ti d dd st pr tg e s) = Inr (Todo_result r)
           \<and> r ''id'' = Some v
           \<and> backing_file (snd (add_todo ti d dd st pr tg e s))
               = Some (Json (fst (u_load_todos True e s)
                    @ [(new_todo ti d dd st pr tg e)(''id'' \<mapsto> v)]))"
proof -
  let ?t = "new_todo ti d dd st pr tg e"
  obtain todos s1 where l: "u_load_todos True e s = (todos, s1)"
    by (cases "u_load_todos True e s")
  from assms obtain errs where val: "u_validate_todo ?t = Inr errs"
    by (cases "u_validate_todo ?t") (simp_all add: add_todo_def Let_def is_success_def)
  from assms val have errs: "errs = []"
    by (cases "errs = []") (simp_all add: add_todo_def Let_def is_success_def)
  from assms val errs l obtain v where v: "next_id todos = Inr v"
    by (cases "next_id todos") (simp_all add: add_todo_def Let_def is_success_def)
  obtain b s2 where sv: "u_save_todos (todos @ [?t(''id'' \<mapsto> v)]) e s1 = (b, s2)"
    by (cases "u_save_todos (todos @ [?t(''id'' \<mapsto> v)]) e s1")
  from assms val errs l v sv have b: "b"
    by (cases b) (simp_all add: add_todo_def Let_def is_success_def)
  from assms val errs l v sv b obtain r where r: "u_serialize_todo (?t(''id'' \<mapsto> v)) = Inr r"
    by (cases "u_serialize_todo (?t(''id'' \<mapsto> v))")
       (simp_all add: add_todo_def Let_def is_success_def)
  have res: "add_todo ti d dd st pr tg e s = (Inr (Todo_result r), s2)"
    using val errs l v sv b r by (simp add: add_todo_def Let_def)
  have rid: "r ''id'' = Some v"
    using u_serialize_todo_id[OF r] by simp
  have fl: "backing_file s2 = Some (Json (todos @ [?t(''id'' \<mapsto> v)]))"
    using sv b u_save_todos_ok[of "todos @ [?t(''id'' \<mapsto> v)]" e s1 s2] by simp
  show ?thesis
    using l v res rid fl by simp
qed

lemma u_load_todos_forced:
  "read_ok e \<Longrightarrow> backing_file s = Some (Json ts) \<Longrightarrow> fst (u_load_todos True e s) = ts"
  "backing_file s = None \<Longrightarrow> fst (u_load_todos True e s) = []"
  by (simp_all add: u_load_todos_def cache_hit_def)

text \<open>
  Claim C2. A successful \<open>add_todo\<close> gives the new record an integer id \<open>n\<close> that is 1
  when the reloaded store is empty and otherwise is one more than an id of the store and
  greater than every id of the store, that is \<open>max(ids, default=0) + 1\<close>; the file then
  holds the reloaded records followed by the new record with this id. The reloaded store
  is the content of the file when it can be read, and empty when there is no file.
\<close>

theorem add_todo_assigns_next_id:
  assumes "is_success (fst (add_todo title description due_date status priority tags e s))"
  shows "\<exists>n r. fst (add_todo title description due_date status priority tags e s)
                 = Inr (Todo_result r)
           \<and> r ''id'' = Some (JInt n)
           \<and> (fst (u_load_todos True e s) = [] \<longrightarrow> n = 1)
           \<and> (\<forall>t\<in>set (fst (u_load_todos True e s)). \<exists>m. t ''id'' = Some (JInt m) \<and> m < n)
           \<and> (fst (u_load_todos True e s) \<noteq> [] \<longrightarrow>
                (\<exists>t\<in>set (fst (u_load_todos True e s)). t ''id'' = Some (JInt (n - 1))))
           \<and> backing_file (snd (add_todo title description due_date status priority tags e s))
               = Some (Json (fst (u_load_todos True e s)
                    @ [(new_todo title description due_date status priority tags e)
                         (''id'' \<mapsto> JInt n)]))
           \<and> (read_ok e \<and> backing_file s = Some (Json ts) \<longrightarrow> fst (u_load_todos True e s) = ts)
           \<and> (backing_file s = None \<longrightarrow> fst (u_load_todos True e s) = [])"
proof -
  let ?L = "fst (u_load_todos True e s)"
  let ?A = "add_todo title description due_date status priority tags e s"
  let ?t = "new_todo title description due_date status priority tags e"
  from add_todo_success[OF assms] obtain v r
    where v: "next_id ?L = Inr v"
      and r1: "fst ?A = Inr (Todo_result r)"
      and r2: "r ''id'' = Some v"
      and f: "backing_file (snd ?A) = Some (Json (?L @ [?t(''id'' \<mapsto> v)]))"
    by (elim exE conjE) (rule that)
  from next_id_char[OF v] obtain n where n1: "v = JInt n"
    and n2: "?L = [] \<longrightarrow> n = 1"
    and n3: "\<forall>t\<in>set ?L. \<exists>m. t ''id'' = Some (JInt m) \<and> m < n"
    and n4: "?L \<noteq> [] \<longrightarrow> (\<exists>t\<in>set ?L. t ''id'' = Some (JInt (n - 1)))"
    by (elim exE conjE) (rule that)
  have g1: "read_ok e \<and> backing_file s = Some (Json ts) \<longrightarrow> ?L = ts"
    using u_load_todos_forced(1)[of e s ts] by simp
  have g2: "backing_file s = None \<longrightarrow> ?L = []"
    using u_load_todos_forced(2)[of s e] by simp
  have r2': "r ''id'' = Some (JInt n)"
    using r2 n1 by simp
  have f': "backing_file (snd ?A) = Some (Json (?L @ [?t(''id'' \<mapsto> JInt n)]))"
    using f n1 by simp
  from r1 r2' n2 n3 n4 f' g1 g2 show ?thesis
    by (intro exI[of _ n] exI[of _ r] conjI)
qed


lemmas add_eval =
  add_todo_def new_todo_def u_validate_todo_def check_title_def check_description_def
  check_due_date_def check_status_def check_priority_def check_tags_def bindE_def dget_def
  dget_default_def in_strings_def is_list_def VALID_STATUSES_def VALID_PRIORITIES_def
  u_load_todos_def cache_hit_def u_save_todos_def u_create_backup_def next_id_def ditem_def
  py_max_default_def py_gt_def u_serialize_todo_def Let_def is_success_def env0_def fresh_def

theorem add_todo_assigns_next_id_witness:
  "is_success (fst (add_todo ''a'' [] None ''pending'' ''medium'' None env0 fresh))
   \<and> (\<exists>r. fst (add_todo ''a'' [] None ''pending'' ''medium'' None env0 fresh)
              = Inr (Todo_result r) \<and> r ''id'' = Some (JInt 1))
   \<and> is_success (fst (add_todo ''d'' [] None ''pending'' ''medium'' None env0 gap_store))
   \<and> (\<exists>r. fst (add_todo ''d'' [] None ''pending'' ''medium'' None env0 gap_store)
              = Inr (Todo_result r) \<and> r ''id'' = Some (JInt 4))"
proof -
  have h1: "is_success (fst (add_todo ''a'' [] None ''pending'' ''medium'' None env0 fresh))"
    by (simp add: add_eval)
  have h2: "is_success (fst (add_todo ''d'' [] None ''pending'' ''medium'' None env0 gap_store))"
    by (simp add: add_eval gap_store_def todo1_def todo3_def)
  have f1: "backing_file fresh = None"
    by (simp add: fresh_def)
  have f2: "read_ok env0 \<and> backing_file gap_store = Some (Json [todo1, todo3])"
    by (simp add: env0_def gap_store_def fresh_def)
  from add_todo_assigns_next_id[OF h1, of "[]"] f1
  have a: "\<exists>r. fst (add_todo ''a'' [] None ''pending'' ''medium'' None env0 fresh)
              = Inr (Todo_result r) \<and> r ''id'' = Some (JInt 1)"
    by (elim exE conjE) (simp)
  from add_todo_assigns_next_id[OF h2, of "[todo1, todo3]"] obtain n r
    where r: "fst (add_todo ''d'' [] None ''pending'' ''medium'' None env0 gap_store)
                = Inr (Todo_result r)" "r ''id'' = Some (JInt n)"
      and lt: "\<forall>t\<in>set (fst (u_load_todos True env0 gap_store)).
                 \<exists>m. t ''id'' = Some (JInt m) \<and> m < n"
      and mx: "fst (u_load_todos True env0 gap_store) \<noteq> [] \<longrightarrow>
                 (\<exists>t\<in>set (fst (u_load_todos True env0 gap_store)). t ''id'' = Some (JInt (n - 1)))"
      and ld: "read_ok env0 \<and> backing_file gap_store = Some (Json [todo1, todo3]) \<longrightarrow>
                 fst (u_load_todos True env0 gap_store) = [todo1, todo3]"
    by (elim exE conjE) (rule that)
  from ld f2 have L: "fst (u_load_todos True env0 gap_store) = [todo1, todo3]"
    by simp
  from lt mx have "n = 4"
    unfolding L by (simp add: todo_ids)
  with r have b: "\<exists>r. fst (add_todo ''d'' [] None ''pending'' ''medium'' None env0 gap_store)
              = Inr (Todo_result r) \<and> r ''id'' = Some (JInt 4)"
    by simp
  from h1 a h2 b show ?thesis
    by (intro conjI)
qed


subsection \<open>Updating a record\<close>

lemma u_load_todos_file: "backing_file (snd (u_load_todos force e s)) = backing_file s"
  by (simp add: u_load_todos_def Let_def u_create_backup_frame
        split: option.splits fcontent.splits)

lemma u_save_todos_not_saved:
  "u_save_todos todos e s = (False, s') \<Longrightarrow> \<forall>g. write_res e \<noteq> Write_fails g \<Longrightarrow>
     backing_file s' = backing_file s"
  by (auto simp: u_save_todos_def Let_def u_create_backup_frame split: write_outcome.splits)

lemma merge_todo_done:
  "merge_todo old None None None (Some ''done'') None None e
     = old(''status'' \<mapsto> JStr ''done'', ''updated_at'' \<mapsto> JStr (iso_updated e))"
  by (simp add: merge_todo_def set_if_def)

lemma u_serialize_todo_fields:
  assumes "u_serialize_todo t = Inr r"
  shows "r ''id'' = t ''id''" and "r ''title'' = t ''title''"
    and "r ''status'' = Some (dget_default t ''status'' (JStr ''pending''))"
    and "r ''updated_at'' = Some (dget t ''updated_at'')"
proof -
  from assms obtain i ti where i: "t ''id'' = Some i" and ti: "t ''title'' = Some ti"
    by (auto simp: u_serialize_todo_def bindE_def ditem_def split: option.splits)
  from assms i ti have r: "r = [''id'' \<mapsto> i,
            ''title'' \<mapsto> ti,
            ''description'' \<mapsto> dget_default t ''description'' (JStr []),
            ''due_date'' \<mapsto> dget t ''due_date'',
            ''status'' \<mapsto> dget_default t ''status'' (JStr ''pending''),
            ''priority'' \<mapsto> dget_default t ''priority'' (JStr ''medium''),
            ''tags'' \<mapsto> dget_default t ''tags'' (JList []),
            ''created_at'' \<mapsto> dget t ''created_at'',
            ''updated_at'' \<mapsto> dget t ''updated_at'']"
    by (simp add: u_serialize_todo_def bindE_def ditem_def)
  show "r ''id'' = t ''id''" by (simp add: r i)
  show "r ''title'' = t ''title''" by (simp add: r ti)
  show "r ''status'' = Some (dget_default t ''status'' (JStr ''pending''))" by (simp add: r)
  show "r ''updated_at'' = Some (dget t ''updated_at'')" by (simp add: r)
qed

lemma update_todo_success:
  assumes "is_success (fst (update_todo tid ti d dd st pr tg e s))"
  shows "\<exists>i r. find_index tid (fst (u_load_todos True e s)) = Inr (Some i)
           \<and> u_serialize_todo (merge_todo (fst (u_load_todos True e s) ! i) ti d dd st pr tg e)
               = Inr r
           \<and> fst (update_todo tid ti d dd st pr tg e s) = Inr (Todo_result r)
           \<and> backing_file (snd (update_todo tid ti d dd st pr tg e s))
               = Some (Json ((fst (u_load_todos True e s))
                    [i := merge_todo (fst (u_load_todos True e s) ! i) ti d dd st pr tg e]))"
proof -
  obtain todos s1 where l: "u_load_todos True e s = (todos, s1)"
    by (cases "u_load_todos True e s")
  from assms l obtain oi where oi: "find_index tid todos = Inr oi"
    by (cases "find_index tid todos") (simp_all add: update_todo_def is_success_def)
  from assms l oi obtain i where i: "oi = Some i"
    by (cases oi) (simp_all add: update_todo_def is_success_def)
  let ?u = "merge_todo (todos ! i) ti d dd st pr tg e"
  from assms l oi i obtain errs where val: "u_validate_todo ?u = Inr errs"
    by (cases "u_validate_todo ?u") (simp_all add: update_todo_def Let_def is_success_def)
  from assms l oi i val have errs: "errs = []"
    by (cases "errs = []") (simp_all add: update_todo_def Let_def is_success_def)
  obtain b s2 where sv: "u_save_todos (todos[i := ?u]) e s1 = (b, s2)"
    by (cases "u_save_todos (todos[i := ?u]) e s1")
  from assms l oi i val errs sv have b: "b"
    by (cases b) (simp_all add: update_todo_def Let_def is_success_def)
  from assms l oi i val errs sv b obtain r where r: "u_serialize_todo ?u = Inr r"
    by (cases "u_serialize_todo ?u") (simp_all add: update_todo_def Let_def is_success_def)
  have res: "update_todo tid ti d dd st pr tg e s = (Inr (Todo_result r), s2)"
    using l oi i val errs sv b r by (simp add: update_todo_def Let_def)
  have fl: "backing_file s2 = Some (Json (todos[i := ?u]))"
    using sv b u_save_todos_ok[of "todos[i := ?u]" e s1 s2] by simp
  show ?thesis
    using l oi i r res fl by simp
qed

lemma update_todo_not_found:
  assumes "find_index tid (fst (u_load_todos True e s)) = Inr None"
  shows "update_todo tid ti d dd st pr tg e s
           = (Inr (Failure [''Todo '' @ str_int tid @ '' not found'']), snd (u_load_todos True e s))"
proof -
  obtain todos s1 where l: "u_load_todos True e s = (todos, s1)"
    by (cases "u_load_todos True e s")
  with assms show ?thesis
    by (simp add: update_todo_def)
qed

lemma u_validate_todo_title:
  assumes "u_validate_todo t = Inr []"
  shows "t ''title'' \<noteq> None"
proof
  assume "t ''title'' = None"
  then have "check_title t = Inr [''Title is required'']"
    by (simp add: check_title_def dget_def)
  with assms show False
    by (auto simp: u_validate_todo_def bindE_def split: sum.splits)
qed

lemma u_serialize_todo_defined:
  "t ''id'' \<noteq> None \<Longrightarrow> t ''title'' \<noteq> None \<Longrightarrow> \<exists>r. u_serialize_todo t = Inr r"
  by (auto simp: u_serialize_todo_def bindE_def ditem_def)

lemma update_todo_failure_file:
  assumes "\<not> is_success (fst (update_todo tid ti d dd st pr tg e s))"
    and "\<forall>g. write_res e \<noteq> Write_fails g"
  shows "backing_file (snd (update_todo tid ti d dd st pr tg e s)) = backing_file s"
proof -
  obtain todos s1 where l: "u_load_todos True e s = (todos, s1)"
    by (cases "u_load_todos True e s")
  have f1: "backing_file s1 = backing_file s"
    using u_load_todos_file[of True e s] l by simp
  have sv: "\<And>ts b s2. u_save_todos ts e s1 = (b, s2) \<Longrightarrow> \<not> b \<Longrightarrow> backing_file s2 = backing_file s"
    using u_save_todos_not_saved[OF _ assms(2)] f1 by simp
  have sr: "\<And>i. find_index tid todos = Inr (Some i) \<Longrightarrow>
      u_validate_todo (merge_todo (todos ! i) ti d dd st pr tg e) = Inr [] \<Longrightarrow>
      \<exists>r. u_serialize_todo (merge_todo (todos ! i) ti d dd st pr tg e) = Inr r"
    using find_index_Some[of tid todos] u_validate_todo_title u_serialize_todo_defined
    by (simp add: merge_todo_id)
  show ?thesis
    using assms(1) l f1 sv sr
    by (fastforce simp: update_todo_def Let_def is_success_def
          split: sum.splits option.splits prod.splits if_splits)
qed


lemma merge_todo_unset:
  "merge_todo old None d dd st pr tg e ''title'' = old ''title''"
  "merge_todo old ti None dd st pr tg e ''description'' = old ''description''"
  "merge_todo old ti d None st pr tg e ''due_date'' = old ''due_date''"
  "merge_todo old ti d dd None pr tg e ''status'' = old ''status''"
  "merge_todo old ti d dd st None tg e ''priority'' = old ''priority''"
  "merge_todo old ti d dd st pr None e ''tags'' = old ''tags''"
  by (simp_all add: merge_todo_def set_if_def split: option.splits)

lemma merge_todo_keeps_keys:
  "old k \<noteq> None \<Longrightarrow> merge_todo old ti d dd st pr tg e k \<noteq> None"
  by (simp add: merge_todo_def set_if_def split: option.splits)

lemma merge_todo_keeps_values:
  "old k \<noteq> None \<Longrightarrow> old k \<noteq> Some JNull \<Longrightarrow> merge_todo old ti d dd st pr tg e k \<noteq> Some JNull"
  by (simp add: merge_todo_def set_if_def split: option.splits)

text \<open>
  Claim C9. \<open>complete_todo(id)\<close> is \<open>update_todo(id, status="done")\<close>: the same result and
  the same final state, in the same environment. When it succeeds, the stored record with
  that id has become the old record with \<open>status\<close> set to \<open>done\<close> and \<open>updated_at\<close> set to
  the current time, every other record is as it was, and the returned dict shows the new
  status and time and the old title; title, description and tags of the stored record are
  those of the old one. When every record has an id and none has this one, both return
  the failure \<open>Todo <id> not found\<close> and leave the state of the forced reload.
\<close>

theorem complete_todo_is_update_done:
  "complete_todo todo_id e s = update_todo todo_id None None None (Some ''done'') None None e s
   \<and> (is_success (fst (complete_todo todo_id e s)) \<longrightarrow>
        (\<exists>i r. i < length (fst (u_load_todos True e s))
           \<and> (fst (u_load_todos True e s) ! i) ''id'' = Some (JInt todo_id)
           \<and> backing_file (snd (complete_todo todo_id e s))
               = Some (Json ((fst (u_load_todos True e s))
                    [i := (fst (u_load_todos True e s) ! i)
                            (''status'' \<mapsto> JStr ''done'',
                             ''updated_at'' \<mapsto> JStr (iso_updated e))]))
           \<and> fst (complete_todo todo_id e s) = Inr (Todo_result r)
           \<and> r ''id'' = Some (JInt todo_id)
           \<and> r ''status'' = Some (JStr ''done'')
           \<and> r ''updated_at'' = Some (JStr (iso_updated e))
           \<and> r ''title'' = (fst (u_load_todos True e s) ! i) ''title''))
   \<and> ((old(''status'' \<mapsto> JStr ''done'', ''updated_at'' \<mapsto> JStr (iso_updated e))) ''title''
          = old ''title''
      \<and> (old(''status'' \<mapsto> JStr ''done'', ''updated_at'' \<mapsto> JStr (iso_updated e))) ''description''
          = old ''description''
      \<and> (old(''status'' \<mapsto> JStr ''done'', ''updated_at'' \<mapsto> JStr (iso_updated e))) ''tags''
          = old ''tags'')
   \<and> ((\<forall>t\<in>set (fst (u_load_todos True e s)). \<exists>v. t ''id'' = Some v \<and> v \<noteq> JInt todo_id) \<longrightarrow>
        complete_todo todo_id e s
          = (Inr (Failure [''Todo '' @ str_int todo_id @ '' not found'']),
             snd (u_load_todos True e s)))"
proof -
  let ?L = "fst (u_load_todos True e s)"
  let ?C = "complete_todo todo_id e s"
  have eq: "?C = update_todo todo_id None None None (Some ''done'') None None e s"
    by (simp add: complete_todo_def)
  have ok: "\<exists>i r. i < length ?L
           \<and> (?L ! i) ''id'' = Some (JInt todo_id)
           \<and> backing_file (snd ?C)
               = Some (Json (?L[i := (?L ! i)(''status'' \<mapsto> JStr ''done'',
                                              ''updated_at'' \<mapsto> JStr (iso_updated e))]))
           \<and> fst ?C = Inr (Todo_result r)
           \<and> r ''id'' = Some (JInt todo_id)
           \<and> r ''status'' = Some (JStr ''done'')
           \<and> r ''updated_at'' = Some (JStr (iso_updated e))
           \<and> r ''title'' = (?L ! i) ''title''"
    if suc: "is_success (fst ?C)"
  proof -
    from suc have "is_success (fst (update_todo todo_id None None None (Some ''done'') None None e s))"
      by (simp add: complete_todo_def)
    from update_todo_success[OF this] obtain i r
      where i: "find_index todo_id ?L = Inr (Some i)"
        and r: "u_serialize_todo (merge_todo (?L ! i) None None None (Some ''done'') None None e)
                  = Inr r"
        and res: "fst (update_todo todo_id None None None (Some ''done'') None None e s)
                  = Inr (Todo_result r)"
        and fl: "backing_file (snd (update_todo todo_id None None None (Some ''done'') None None e s))
                  = Some (Json (?L[i := merge_todo (?L ! i) None None None (Some ''done'')
                                          None None e]))"
      by (elim exE conjE) (rule that)
    note fi = find_index_Some[OF i]
    note sf = u_serialize_todo_fields[OF r]
    have c1: "i < length ?L" using fi by simp
    have c2: "(?L ! i) ''id'' = Some (JInt todo_id)" using fi by simp
    have c3: "backing_file (snd ?C)
               = Some (Json (?L[i := (?L ! i)(''status'' \<mapsto> JStr ''done'',
                                              ''updated_at'' \<mapsto> JStr (iso_updated e))]))"
      using fl by (simp add: complete_todo_def merge_todo_done)
    have c4: "fst ?C = Inr (Todo_result r)" using res by (simp add: complete_todo_def)
    have c5: "r ''id'' = Some (JInt todo_id)"
      using sf(1) c2 by (simp add: merge_todo_id)
    have c6: "r ''status'' = Some (JStr ''done'')"
      using sf(3) by (simp add: merge_todo_done dget_default_def)
    have c7: "r ''updated_at'' = Some (JStr (iso_updated e))"
      using sf(4) by (simp add: merge_todo_done dget_def)
    have c8: "r ''title'' = (?L ! i) ''title''"
      using sf(2) by (simp add: merge_todo_done)
    from c1 c2 c3 c4 c5 c6 c7 c8 show ?thesis
      by (intro exI[of _ i] exI[of _ r] conjI)
  qed
  have nf: "?C = (Inr (Failure [''Todo '' @ str_int todo_id @ '' not found'']),
                  snd (u_load_todos True e s))"
    if "\<forall>t\<in>set ?L. \<exists>v. t ''id'' = Some v \<and> v \<noteq> JInt todo_id"
    using update_todo_not_found[OF find_index_None[OF that]] by (simp add: complete_todo_def)
  have fr: "(old(''status'' \<mapsto> JStr ''done'', ''updated_at'' \<mapsto> JStr (iso_updated e))) ''title''
          = old ''title''
      \<and> (old(''status'' \<mapsto> JStr ''done'', ''updated_at'' \<mapsto> JStr (iso_updated e))) ''description''
          = old ''description''
      \<and> (old(''status'' \<mapsto> JStr ''done'', ''updated_at'' \<mapsto> JStr (iso_updated e))) ''tags''
          = old ''tags''"
    by simp
  show ?thesis
    apply (rule conjI[OF eq])
    apply (rule conjI)
     apply (rule impI)
     apply (erule ok)
    apply (rule conjI[OF fr])
    apply (rule impI)
    apply (erule nf)
    done
qed

lemmas update_eval =
  update_todo_def complete_todo_def merge_todo_def set_if_def u_validate_todo_def check_title_def
  check_description_def check_due_date_def check_status_def check_priority_def check_tags_def
  bindE_def dget_def dget_default_def in_strings_def is_list_def VALID_STATUSES_def
  VALID_PRIORITIES_def u_validate_date_def strptime_ymd_def is_digit_def is_digit19_def
  digit_val_def days_in_month_def is_leap_def
  u_load_todos_def cache_hit_def u_save_todos_def u_create_backup_def ditem_def
  u_serialize_todo_def Let_def is_success_def env0_def fresh_def gap_store_def todo1_def
  todo3_def new_todo_def

lemma gap_store_loaded: "fst (u_load_todos True env0 gap_store) = [todo1, todo3]"
  by (simp add: u_load_todos_def cache_hit_def gap_store_def fresh_def env0_def)

lemma todo3_title: "todo3 ''title'' = Some (JStr ''c'')"
  by (simp add: todo3_def new_todo_def)

lemma str_int_2: "str_int 2 = ''2''"
  by code_simp

theorem complete_todo_is_update_done_witness:
  "is_success (fst (complete_todo 3 env0 gap_store))
   \<and> complete_todo 3 env0 gap_store
       = update_todo 3 None None None (Some ''done'') None None env0 gap_store
   \<and> (\<exists>r. fst (complete_todo 3 env0 gap_store) = Inr (Todo_result r)
          \<and> r ''status'' = Some (JStr ''done'') \<and> r ''title'' = Some (JStr ''c''))
   \<and> backing_file (snd (complete_todo 3 env0 gap_store))
       = Some (Json [todo1, todo3(''status'' \<mapsto> JStr ''done'',
                                  ''updated_at'' \<mapsto> JStr (iso_updated env0))])
   \<and> fst (complete_todo 2 env0 gap_store) = Inr (Failure [''Todo 2 not found''])"
proof -
  note t = complete_todo_is_update_done[of 3 env0 gap_store todo3]
  note u = complete_todo_is_update_done[of 2 env0 gap_store todo3]
  have h: "is_success (fst (complete_todo 3 env0 gap_store))"
    by (simp add: update_eval)
  note eq = t[THEN conjunct1]
  note ex = mp[OF t[THEN conjunct2, THEN conjunct1] h]
  from ex obtain i r where i: "i < length (fst (u_load_todos True env0 gap_store))"
      "(fst (u_load_todos True env0 gap_store) ! i) ''id'' = Some (JInt 3)"
    and fl: "backing_file (snd (complete_todo 3 env0 gap_store))
               = Some (Json ((fst (u_load_todos True env0 gap_store))
                    [i := (fst (u_load_todos True env0 gap_store) ! i)
                            (''status'' \<mapsto> JStr ''done'',
                             ''updated_at'' \<mapsto> JStr (iso_updated env0))]))"
    and r: "fst (complete_todo 3 env0 gap_store) = Inr (Todo_result r)"
      "r ''status'' = Some (JStr ''done'')"
      "r ''title'' = (fst (u_load_todos True env0 gap_store) ! i) ''title''"
    by (elim exE conjE) (rule that)
  from i have i1: "i = 1"
    unfolding gap_store_loaded by (cases i) (simp_all add: todo_ids)
  have a: "\<exists>r. fst (complete_todo 3 env0 gap_store) = Inr (Todo_result r)
          \<and> r ''status'' = Some (JStr ''done'') \<and> r ''title'' = Some (JStr ''c'')"
    using r unfolding gap_store_loaded i1 by (simp add: todo3_title)
  have b: "backing_file (snd (complete_todo 3 env0 gap_store))
       = Some (Json [todo1, todo3(''status'' \<mapsto> JStr ''done'',
                                  ''updated_at'' \<mapsto> JStr (iso_updated env0))])"
    using fl unfolding gap_store_loaded i1 by simp
  have m: "\<forall>t\<in>set (fst (u_load_todos True env0 gap_store)).
             \<exists>v. t ''id'' = Some v \<and> v \<noteq> JInt 2"
    unfolding gap_store_loaded by (simp add: todo_ids)
  note nf = mp[OF u[THEN conjunct2, THEN conjunct2, THEN conjunct2] m]
  have c: "fst (complete_todo 2 env0 gap_store) = Inr (Failure [''Todo 2 not found''])"
    using nf by (simp add: str_int_2)
  from h eq a b c show ?thesis
    by (intro conjI)
qed

text \<open>
  Claim C10. In \<open>update_todo\<close> a parameter that is \<open>None\<close> leaves its field of the record
  as it was; \<open>id\<close> and \<open>created_at\<close> are never assigned; a key that the record has it keeps,
  and a value that is not null does not become null (the parameters are strings or lists).
  A successful call stores exactly this merged record at the place of the old one and
  leaves the other records alone; an unsuccessful call leaves the file as it was, unless
  the write itself broke off midway.
\<close>

theorem update_todo_keeps_unset_fields:
  "(title = None \<longrightarrow>
      merge_todo old title description due_date status priority tags e ''title'' = old ''title'')
   \<and> (description = None \<longrightarrow>
      merge_todo old title description due_date status priority tags e ''description''
        = old ''description'')
   \<and> (due_date = None \<longrightarrow>
      merge_todo old title description due_date status priority tags e ''due_date''
        = old ''due_date'')
   \<and> (status = None \<longrightarrow>
      merge_todo old title description due_date status priority tags e ''status''
        = old ''status'')
   \<and> (priority = None \<longrightarrow>
      merge_todo old title description due_date status priority tags e ''priority''
        = old ''priority'')
   \<and> (tags = None \<longrightarrow>
      merge_todo old title description due_date status priority tags e ''tags'' = old ''tags'')
   \<and> merge_todo old title description due_date status priority tags e ''id'' = old ''id''
   \<and> merge_todo old title description due_date status priority tags e ''created_at''
        = old ''created_at''
   \<and> (old k \<noteq> None \<longrightarrow>
        merge_todo old title description due_date status priority tags e k \<noteq> None)
   \<and> (old k \<noteq> None \<and> old k \<noteq> Some JNull \<longrightarrow>
        merge_todo old title description due_date status priority tags e k \<noteq> None
        \<and> merge_todo old title description due_date status priority tags e k \<noteq> Some JNull)
   \<and> (is_success (fst (update_todo todo_id title description due_date status priority tags e s))
        \<longrightarrow>
        (\<exists>i. i < length (fst (u_load_todos True e s))
           \<and> (fst (u_load_todos True e s) ! i) ''id'' = Some (JInt todo_id)
           \<and> backing_file
                (snd (update_todo todo_id title description due_date status priority tags e s))
               = Some (Json ((fst (u_load_todos True e s))
                    [i := merge_todo (fst (u_load_todos True e s) ! i) title description
                            due_date status priority tags e]))))
   \<and> (\<not> is_success
            (fst (update_todo todo_id title description due_date status priority tags e s))
        \<and> (\<forall>g. write_res e \<noteq> Write_fails g) \<longrightarrow>
        backing_file (snd (update_todo todo_id title description due_date status priority tags e s))
          = backing_file s)"
proof -
  let ?U = "update_todo todo_id title description due_date status priority tags e s"
  let ?L = "fst (u_load_todos True e s)"
  have ok: "\<exists>i. i < length ?L \<and> (?L ! i) ''id'' = Some (JInt todo_id)
           \<and> backing_file (snd ?U)
               = Some (Json (?L[i := merge_todo (?L ! i) title description
                            due_date status priority tags e]))"
    if suc: "is_success (fst ?U)"
  proof -
    from update_todo_success[OF suc] obtain i r
      where i: "find_index todo_id ?L = Inr (Some i)"
        and fl: "backing_file (snd ?U)
               = Some (Json (?L[i := merge_todo (?L ! i) title description
                            due_date status priority tags e]))"
      by (elim exE conjE) (rule that)
    note fi = find_index_Some[OF i]
    have c1: "i < length ?L" using fi by simp
    have c2: "(?L ! i) ''id'' = Some (JInt todo_id)" using fi by simp
    from c1 c2 fl show ?thesis
      by (intro exI[of _ i] conjI)
  qed
  have bad: "backing_file (snd ?U) = backing_file s"
    if "\<not> is_success (fst ?U) \<and> (\<forall>g. write_res e \<noteq> Write_fails g)"
    using update_todo_failure_file[of todo_id title description due_date status priority tags e s]
      that by simp
  have kv: "merge_todo old title description due_date status priority tags e k \<noteq> None
        \<and> merge_todo old title description due_date status priority tags e k \<noteq> Some JNull"
    if "old k \<noteq> None \<and> old k \<noteq> Some JNull"
    using that merge_todo_keeps_keys[of old k] merge_todo_keeps_values[of old k] by simp
  show ?thesis
    apply (intro conjI impI)
               apply (simp add: merge_todo_unset)
              apply (simp add: merge_todo_unset)
             apply (simp add: merge_todo_unset)
            apply (simp add: merge_todo_unset)
           apply (simp add: merge_todo_unset)
          apply (simp add: merge_todo_unset)
         apply (rule merge_todo_id)
        apply (simp add: merge_todo_other)
       apply (erule merge_todo_keeps_keys)
      apply (erule kv[THEN conjunct1])
     apply (erule kv[THEN conjunct2])
    apply (erule ok)
    apply (erule bad)
    done
qed


lemma todo3_due_date: "todo3 ''due_date'' = Some (JStr ''2024-06-01'')"
  by (simp add: todo3_def new_todo_def)

lemma merge_todo_nothing:
  "merge_todo old None None None None None None e = old(''updated_at'' \<mapsto> JStr (iso_updated e))"
  by (simp add: merge_todo_def set_if_def)

theorem update_todo_keeps_unset_fields_witness:
  "is_success (fst (update_todo 3 None None None None None None env0 gap_store))
   \<and> backing_file (snd (update_todo 3 None None None None None None env0 gap_store))
       = Some (Json [todo1, todo3(''updated_at'' \<mapsto> JStr (iso_updated env0))])
   \<and> todo3 ''due_date'' = Some (JStr ''2024-06-01'')
   \<and> merge_todo todo3 None None None None None None env0 ''due_date''
       = Some (JStr ''2024-06-01'')
   \<and> merge_todo todo3 None None None None None None env0 ''title'' = todo3 ''title''
   \<and> merge_todo todo3 None None None None None None env0 ''id'' = Some (JInt 3)
   \<and> \<not> is_success (fst (update_todo 2 None None None None None None env0 gap_store))
   \<and> (\<forall>g. write_res env0 \<noteq> Write_fails g)
   \<and> backing_file (snd (update_todo 2 None None None None None None env0 gap_store))
       = backing_file gap_store"
proof -
  note t = update_todo_keeps_unset_fields[where title=None and description=None
      and due_date=None and status=None and priority=None and tags=None and old=todo3
      and e=env0 and k="''due_date''" and todo_id=3 and s=gap_store]
  note u = update_todo_keeps_unset_fields[where title=None and description=None
      and due_date=None and status=None and priority=None and tags=None and old=todo3
      and e=env0 and k="''due_date''" and todo_id=2 and s=gap_store]
  have h: "is_success (fst (update_todo 3 None None None None None None env0 gap_store))"
    by (simp add: update_eval)
  have n: "\<not> is_success (fst (update_todo 2 None None None None None None env0 gap_store))"
    by (simp add: update_eval)
  have w: "\<forall>g. write_res env0 \<noteq> Write_fails g"
    by (simp add: env0_def)
  have t1: "merge_todo todo3 None None None None None None env0 ''title'' = todo3 ''title''"
    using t[THEN conjunct1] by simp
  have t3: "merge_todo todo3 None None None None None None env0 ''due_date''
              = Some (JStr ''2024-06-01'')"
    using t[THEN conjunct2, THEN conjunct2, THEN conjunct1] by (simp add: todo3_due_date)
  have t7: "merge_todo todo3 None None None None None None env0 ''id'' = Some (JInt 3)"
    using t[THEN conjunct2, THEN conjunct2, THEN conjunct2, THEN conjunct2, THEN conjunct2,
            THEN conjunct2, THEN conjunct1]
    by (simp add: todo_ids)
  note ex = mp[OF t[THEN conjunct2, THEN conjunct2, THEN conjunct2, THEN conjunct2,
            THEN conjunct2, THEN conjunct2, THEN conjunct2, THEN conjunct2, THEN conjunct2,
            THEN conjunct2, THEN conjunct1] h]
  from ex obtain i where i: "i < length (fst (u_load_todos True env0 gap_store))"
      "(fst (u_load_todos True env0 gap_store) ! i) ''id'' = Some (JInt 3)"
    and fl: "backing_file (snd (update_todo 3 None None None None None None env0 gap_store))
               = Some (Json ((fst (u_load_todos True env0 gap_store))
                    [i := merge_todo (fst (u_load_todos True env0 gap_store) ! i) None None
                            None None None None env0]))"
    by (elim exE conjE) (rule that)
  from i have i1: "i = 1"
    unfolding gap_store_loaded by (cases i) (simp_all add: todo_ids)
  have b: "backing_file (snd (update_todo 3 None None None None None None env0 gap_store))
       = Some (Json [todo1, todo3(''updated_at'' \<mapsto> JStr (iso_updated env0))])"
    using fl unfolding gap_store_loaded i1 by (simp add: merge_todo_nothing)
  have c: "backing_file (snd (update_todo 2 None None None None None None env0 gap_store))
       = backing_file gap_store"
    using mp[OF u[THEN conjunct2, THEN conjunct2, THEN conjunct2, THEN conjunct2,
            THEN conjunct2, THEN conjunct2, THEN conjunct2, THEN conjunct2, THEN conjunct2,
            THEN conjunct2, THEN conjunct2] conjI[OF n w]] .
  from h b todo3_due_date t3 t1 t7 n w c show ?thesis
    by (intro conjI)
qed

text \<open>
  What the frame property does not exclude: the empty string is a value like any other.
  \<open>update_todo(3, due_date="")\<close> passes validation and stores \<open>""\<close>, which the due date
  filters of \<open>list_todos\<close> count as no date.
\<close>

lemma update_todo_empty_due_date:
  "is_success (fst (update_todo 3 None None (Some []) None None None env0 gap_store))
   \<and> backing_file (snd (update_todo 3 None None (Some []) None None None env0 gap_store))
       = Some (Json [todo1, todo3(''due_date'' \<mapsto> JStr [],
                                  ''updated_at'' \<mapsto> JStr (iso_updated env0))])"
  by (simp add: update_eval)

subsection \<open>Sorting the listing\<close>

lemma py_lt_irrefl: "py_lt a a \<noteq> Inr True"
  by (cases a) simp_all

lemma py_lt_asym: "py_lt a b = Inr True \<Longrightarrow> py_lt b a = Inr False"
  by (cases a; cases b) auto

lemma py_lt_trans_ge:
  "py_lt c b = Inr False \<Longrightarrow> py_lt b a = Inr False \<Longrightarrow> py_lt c a = Inr False"
  by (cases a; cases b; cases c) auto

lemma insort_py_filter:
  "insort_py key x ys = Inr zs \<Longrightarrow>
     filter (\<lambda>t. key t = k) zs = filter (\<lambda>t. key t = k) (x # ys)"
proof (induction ys arbitrary: zs)
  case Nil
  then show ?case by auto
next
  case (Cons y ys)
  from Cons.prems obtain b where b: "py_lt (key y) (key x) = Inr b"
    by (cases "py_lt (key y) (key x)") simp_all
  show ?case
  proof (cases b)
    case False
    with Cons.prems b show ?thesis by simp
  next
    case True
    with Cons.prems b obtain zs' where zs': "insort_py key x ys = Inr zs'" and zs: "zs = y # zs'"
      by (cases "insort_py key x ys") simp_all
    from b True have ne: "key y \<noteq> key x"
      using py_lt_irrefl[of "key x"] by auto
    from Cons.IH[OF zs'] zs ne show ?thesis
      by auto
  qed
qed

lemma sort_py_filter:
  "sort_py key xs = Inr ys \<Longrightarrow> filter (\<lambda>t. key t = k) ys = filter (\<lambda>t. key t = k) xs"
proof (induction xs arbitrary: ys)
  case Nil
  then show ?case by simp
next
  case (Cons x xs)
  from Cons.prems obtain ws where ws: "sort_py key xs = Inr ws" and ys: "insort_py key x ws = Inr ys"
    by (cases "sort_py key xs") simp_all
  from insort_py_filter[OF ys, of k] Cons.IH[OF ws] show ?case
    by simp
qed

lemma py_sort_filter:
  assumes "py_sort key reverse xs = Inr ys"
  shows "filter (\<lambda>t. key t = k) ys = filter (\<lambda>t. key t = k) xs"
proof (cases reverse)
  case False
  with assms sort_py_filter show ?thesis by (simp add: py_sort_def)
next
  case True
  with assms obtain zs where zs: "sort_py key (rev xs) = Inr zs" and ys: "ys = rev zs"
    by (cases "sort_py key (rev xs)") (simp_all add: py_sort_def)
  have "filter (\<lambda>t. key t = k) (rev zs) = rev (filter (\<lambda>t. key t = k) zs)"
    by (simp only: rev_filter)
  also have "\<dots> = rev (filter (\<lambda>t. key t = k) (rev xs))"
    by (simp only: sort_py_filter[OF zs, of k])
  also have "\<dots> = filter (\<lambda>t. key t = k) xs"
    by (simp only: rev_filter rev_rev_ident)
  finally show ?thesis
    by (simp only: ys)
qed

lemma insort_py_set: "insort_py key x ys = Inr zs \<Longrightarrow> set zs = insert x (set ys)"
proof (induction ys arbitrary: zs)
  case Nil
  then show ?case by auto
next
  case (Cons y ys)
  from Cons.prems obtain b where b: "py_lt (key y) (key x) = Inr b"
    by (cases "py_lt (key y) (key x)") simp_all
  show ?case
  proof (cases b)
    case False
    with Cons.prems b show ?thesis by auto
  next
    case True
    with Cons.prems b obtain zs' where zs': "insort_py key x ys = Inr zs'" and zs: "zs = y # zs'"
      by (cases "insort_py key x ys") simp_all
    from Cons.IH[OF zs'] zs show ?thesis by auto
  qed
qed

lemma insort_py_sorted:
  assumes "insort_py key x ys = Inr zs"
    and "sorted_wrt (\<lambda>a b. py_lt (key b) (key a) = Inr False) ys"
  shows "sorted_wrt (\<lambda>a b. py_lt (key b) (key a) = Inr False) zs"
  using assms
proof (induction ys arbitrary: zs)
  case Nil
  then show ?case by auto
next
  case (Cons y ys)
  from Cons.prems(1) obtain b where b: "py_lt (key y) (key x) = Inr b"
    by (cases "py_lt (key y) (key x)") simp_all
  show ?case
  proof (cases b)
    case False
    with Cons.prems(1) b have zs: "zs = x # y # ys" by simp
    from b False have xy: "py_lt (key y) (key x) = Inr False" by simp
    have "\<forall>z\<in>set ys. py_lt (key z) (key x) = Inr False"
      using Cons.prems(2) xy py_lt_trans_ge by auto
    with zs xy Cons.prems(2) show ?thesis by simp
  next
    case True
    with Cons.prems(1) b obtain zs' where zs': "insort_py key x ys = Inr zs'" and zs: "zs = y # zs'"
      by (cases "insort_py key x ys") simp_all
    from Cons.prems(2) have s: "sorted_wrt (\<lambda>a b. py_lt (key b) (key a) = Inr False) ys"
      by simp
    note ih = Cons.IH[OF zs' s]
    from b True have "py_lt (key x) (key y) = Inr False"
      using py_lt_asym by simp
    with Cons.prems(2) insort_py_set[OF zs'] have "\<forall>z\<in>set zs'. py_lt (key z) (key y) = Inr False"
      by auto
    with ih zs show ?thesis by simp
  qed
qed

lemma sort_py_sorted:
  "sort_py key xs = Inr ys \<Longrightarrow> sorted_wrt (\<lambda>a b. py_lt (key b) (key a) = Inr False) ys"
proof (induction xs arbitrary: ys)
  case Nil
  then show ?case by simp
next
  case (Cons x xs)
  from Cons.prems obtain ws where ws: "sort_py key xs = Inr ws" and ys: "insort_py key x ws = Inr ys"
    by (cases "sort_py key xs") simp_all
  from insort_py_sorted[OF ys Cons.IH[OF ws]] show ?case .
qed

lemma py_sort_sorted:
  assumes "py_sort key reverse xs = Inr ys"
  shows "sorted_wrt (\<lambda>a b. if reverse then py_lt (key a) (key b) = Inr False
                             else py_lt (key b) (key a) = Inr False) ys"
proof (cases reverse)
  case False
  with assms sort_py_sorted[of key xs ys] show ?thesis by (simp add: py_sort_def)
next
  case True
  with assms obtain zs where zs: "sort_py key (rev xs) = Inr zs" and ys: "ys = rev zs"
    by (cases "sort_py key (rev xs)") (simp_all add: py_sort_def)
  from sort_py_sorted[OF zs] ys True show ?thesis
    by (simp add: sorted_wrt_rev)
qed


lemma sort_todos_Inr:
  assumes "sort_todos sort_by sort_order xs = Inr ys"
  shows "py_sort (sort_key sort_by) (lower sort_order = ''desc'') xs = Inr ys"
proof -
  from assms have v: "sort_by \<in> set valid_sort_fields"
    by (cases "sort_by \<in> set valid_sort_fields") (simp_all add: sort_todos_def)
  with assms show ?thesis
    by (cases "py_sort (sort_key sort_by) (lower sort_order = ''desc'') xs")
       (simp_all add: sort_todos_def raising_def)
qed

lemma raising_Inl: "raising m = Inl out \<Longrightarrow> \<not> is_success out"
  by (cases m) (auto simp: raising_def is_success_def)

lemma filter_status_Inl: "filter_status st xs = Inl out \<Longrightarrow> \<not> is_success out"
  by (auto simp: filter_status_def is_success_def split: option.splits if_splits)

lemma filter_priority_Inl: "filter_priority pr xs = Inl out \<Longrightarrow> \<not> is_success out"
  by (auto simp: filter_priority_def is_success_def split: option.splits if_splits)

lemma filter_search_Inl: "filter_search x xs = Inl out \<Longrightarrow> \<not> is_success out"
  by (auto simp: filter_search_def dest: raising_Inl split: option.splits if_splits)

lemma filter_tag_Inl: "filter_tag x xs = Inl out \<Longrightarrow> \<not> is_success out"
  by (auto simp: filter_tag_def dest: raising_Inl split: option.splits if_splits)

lemma filter_due_Inl: "filter_due x day xs = Inl out \<Longrightarrow> \<not> is_success out"
  by (auto simp: filter_due_def is_success_def dest: raising_Inl
        split: option.splits if_splits)

lemma sort_todos_Inl: "sort_todos sort_by sort_order xs = Inl out \<Longrightarrow> \<not> is_success out"
  by (auto simp: sort_todos_def is_success_def dest: raising_Inl split: if_splits)

lemma filter_todos_Inl:
  "filter_todos st pr x tg df day xs = Inl out \<Longrightarrow> \<not> is_success out"
  by (auto simp: filter_todos_def bindE_def split: sum.splits
        dest: filter_status_Inl filter_priority_Inl filter_search_Inl filter_tag_Inl
          filter_due_Inl)

lemma select_todos_Inl:
  "select_todos st pr x tg df sort_by sort_order day xs = Inl out \<Longrightarrow> \<not> is_success out"
  by (auto simp: select_todos_def bindE_def split: sum.splits
        dest: filter_todos_Inl sort_todos_Inl)

text \<open>
  Claim C6. Whenever \<open>list_todos\<close> succeeds, the records it sorted come out with every
  group of equal sort keys in the order it had before the sort, for \<open>asc\<close> and for \<open>desc\<close>
  alike (\<open>k\<close> ranges over the keys); they are in ascending order of the key, and in
  descending order when \<open>sort_order\<close> is \<open>desc\<close> in any letter case; and the page returned
  is the serialised slice of this sorted list.
\<close>

theorem sort_is_stable:
  assumes "is_success (fst (list_todos status priority search tag due_date_filter sort_by
                              sort_order limit offset e s))"
  shows "\<exists>filtered sorted page.
      filter_todos status priority search tag due_date_filter (today e)
          (fst (u_load_todos False e s)) = Inr filtered
    \<and> sort_todos sort_by sort_order filtered = Inr sorted
    \<and> (\<forall>k. filter (\<lambda>t. sort_key sort_by t = k) sorted
             = filter (\<lambda>t. sort_key sort_by t = k) filtered)
    \<and> sorted_wrt (\<lambda>a b. if lower sort_order = ''desc''
                          then py_lt (sort_key sort_by a) (sort_key sort_by b) = Inr False
                          else py_lt (sort_key sort_by b) (sort_key sort_by a) = Inr False)
          sorted
    \<and> mapE u_serialize_todo (py_slice offset (offset + limit) sorted) = Inr page
    \<and> fst (list_todos status priority search tag due_date_filter sort_by sort_order limit
              offset e s)
        = Inr (Listing page (int (length sorted)) limit offset)"
proof -
  let ?Q = "list_todos status priority search tag due_date_filter sort_by sort_order limit
              offset e s"
  obtain todos s1 where l: "u_load_todos False e s = (todos, s1)"
    by (cases "u_load_todos False e s")
  let ?F = "filter_todos status priority search tag due_date_filter (today e) todos"
  let ?S = "select_todos status priority search tag due_date_filter sort_by sort_order
              (today e) todos"
  from assms l obtain sorted where sel: "?S = Inr sorted"
    using select_todos_Inl[of status priority search tag due_date_filter sort_by sort_order
        "today e" todos]
    by (cases ?S) (simp_all add: list_todos_def)
  from sel obtain filtered where f: "?F = Inr filtered"
    by (cases ?F) (simp_all add: select_todos_def bindE_def)
  from sel f have st: "sort_todos sort_by sort_order filtered = Inr sorted"
    by (simp add: select_todos_def bindE_def)
  note ps = sort_todos_Inr[OF st]
  from assms l sel obtain page
    where page: "mapE u_serialize_todo (py_slice offset (offset + limit) sorted) = Inr page"
    by (cases "mapE u_serialize_todo (py_slice offset (offset + limit) sorted)")
       (simp_all add: list_todos_def is_success_def)
  have res: "fst ?Q = Inr (Listing page (int (length sorted)) limit offset)"
    using l sel page by (simp add: list_todos_def)
  have stab: "\<forall>k. filter (\<lambda>t. sort_key sort_by t = k) sorted
             = filter (\<lambda>t. sort_key sort_by t = k) filtered"
    using py_sort_filter[OF ps] by simp
  note ord = py_sort_sorted[OF ps]
  have f': "filter_todos status priority search tag due_date_filter (today e)
          (fst (u_load_todos False e s)) = Inr filtered"
    using f l by simp
  from f' st stab ord page res show ?thesis
    by (intro exI[of _ filtered] exI[of _ sorted] exI[of _ page] conjI)
qed


lemmas list_eval =
  list_todos_def select_todos_def filter_todos_def filter_status_def filter_priority_def
  filter_search_def filter_tag_def filter_due_def sort_todos_def valid_sort_fields_def
  py_sort_def sort_key_def raising_def lower_def lower_char_def py_slice_def slice_bound_def
  u_serialize_todo_def bindE_def ditem_def dget_def dget_default_def u_load_todos_def
  cache_hit_def is_success_def Let_def env0_def fresh_def new_todo_def

theorem sort_is_stable_witness:
  "is_success (fst (list_todos None None None None None ''priority'' ''desc'' 100 0 env0
                      tie_store))
   \<and> (\<exists>page. fst (list_todos None None None None None ''priority'' ''desc'' 100 0 env0
                      tie_store) = Inr (Listing page 3 100 0)
          \<and> map (\<lambda>r. r ''id'') page = [Some (JInt 2), Some (JInt 1), Some (JInt 3)])
   \<and> is_success (fst (list_todos None None None None None ''priority'' ''asc'' 100 0 env0
                      tie_store))
   \<and> (\<exists>page. fst (list_todos None None None None None ''priority'' ''asc'' 100 0 env0
                      tie_store) = Inr (Listing page 3 100 0)
          \<and> map (\<lambda>r. r ''id'') page = [Some (JInt 1), Some (JInt 3), Some (JInt 2)])
   \<and> (\<exists>sorted. sort_todos ''priority'' ''desc'' [tie_a, tie_b, tie_c] = Inr sorted
          \<and> filter (\<lambda>t. sort_key ''priority'' t = JStr ''high'') sorted = [tie_a, tie_c])"
proof -
  have h1: "is_success (fst (list_todos None None None None None ''priority'' ''desc'' 100 0
                               env0 tie_store))"
    by (simp add: list_eval tie_store_def tie_a_def tie_b_def tie_c_def)
  have h2: "is_success (fst (list_todos None None None None None ''priority'' ''asc'' 100 0
                               env0 tie_store))"
    by (simp add: list_eval tie_store_def tie_a_def tie_b_def tie_c_def)
  have p1: "\<exists>page. fst (list_todos None None None None None ''priority'' ''desc'' 100 0 env0
                      tie_store) = Inr (Listing page 3 100 0)
          \<and> map (\<lambda>r. r ''id'') page = [Some (JInt 2), Some (JInt 1), Some (JInt 3)]"
    by (simp add: list_eval tie_store_def tie_a_def tie_b_def tie_c_def)
  have p2: "\<exists>page. fst (list_todos None None None None None ''priority'' ''asc'' 100 0 env0
                      tie_store) = Inr (Listing page 3 100 0)
          \<and> map (\<lambda>r. r ''id'') page = [Some (JInt 1), Some (JInt 3), Some (JInt 2)]"
    by (simp add: list_eval tie_store_def tie_a_def tie_b_def tie_c_def)
  have ld: "fst (u_load_todos False env0 tie_store) = [tie_a, tie_b, tie_c]"
    by (simp add: u_load_todos_def cache_hit_def tie_store_def fresh_def env0_def)
  have fl: "filter_todos None None None None None (today env0) [tie_a, tie_b, tie_c]
              = Inr [tie_a, tie_b, tie_c]"
    by (simp add: filter_todos_def filter_status_def filter_priority_def filter_search_def
          filter_tag_def filter_due_def bindE_def)
  have ks: "sort_key ''priority'' tie_a = JStr ''high''" "sort_key ''priority'' tie_b = JStr ''low''"
    "sort_key ''priority'' tie_c = JStr ''high''"
    by (simp_all add: sort_key_def dget_default_def tie_a_def tie_b_def tie_c_def new_todo_def)
  from sort_is_stable[OF h1] obtain filtered sorted
    where f: "filter_todos None None None None None (today env0)
                (fst (u_load_todos False env0 tie_store)) = Inr filtered"
      and st: "sort_todos ''priority'' ''desc'' filtered = Inr sorted"
      and stab: "\<forall>k. filter (\<lambda>t. sort_key ''priority'' t = k) sorted
                   = filter (\<lambda>t. sort_key ''priority'' t = k) filtered"
    by (elim exE conjE) (rule that)
  from f have fe: "filtered = [tie_a, tie_b, tie_c]"
    unfolding ld fl by simp
  have "filter (\<lambda>t. sort_key ''priority'' t = JStr ''high'') sorted = [tie_a, tie_c]"
    using stab[rule_format, of "JStr ''high''"] unfolding fe by (simp add: ks)
  with st have p3: "\<exists>sorted. sort_todos ''priority'' ''desc'' [tie_a, tie_b, tie_c] = Inr sorted
          \<and> filter (\<lambda>t. sort_key ''priority'' t = JStr ''high'') sorted = [tie_a, tie_c]"
    unfolding fe by (intro exI[of _ sorted] conjI)
  from h1 p1 h2 p2 p3 show ?thesis
    by (intro conjI)
qed

text \<open>
  Claim C5 says that a sort over records without a value for the sort field takes the
  missing value as the empty string and always completes. The default of \<open>dict.get\<close>
  covers an absent key only. \<open>add_todo\<close> stores \<open>"due_date": None\<close> for a record without a
  due date, the sort key of such a record is \<open>None\<close>, and comparing it raises \<open>TypeError\<close>,
  which nothing in \<open>list_todos\<close> catches: two records added with the default arguments,
  then listed with \<open>sort_by="due_date"\<close>.
\<close>

theorem sort_by_null_due_date_raises:
  "fst (list_todos None None None None None ''due_date'' ''asc'' 100 0 env0
         (snd (add_todo ''b'' [] None ''pending'' ''medium'' None env0
                (snd (add_todo ''a'' [] None ''pending'' ''medium'' None env0 fresh)))))
     = Inl TypeError"
  by (simp add: list_eval add_eval)

text \<open>The part of the claim that holds: an absent key sorts as the empty string.\<close>

lemma sort_key_absent: "t sort_by = None \<Longrightarrow> sort_key sort_by t = JStr []"
  by (simp add: sort_key_def dget_default_def)

end
